theory Spec2Isabelle
  imports Main "HOL-Library.Word"
begin

unbundle bit_operations_syntax

section \<open>Platform types and constants\<close>

text \<open>
  The engine is \<^verbatim>\<open>Plugins/Android/moonforge_crash_handler.c\<close>. Pointers and
  \<^verbatim>\<open>uintptr_t\<close> are 64-bit words (a 64-bit Android ABI); C \<^verbatim>\<open>int\<close>
  values that only carry small numbers (signal numbers, sub-codes, the two flags) are
  \<open>int\<close>; \<^verbatim>\<open>size_t\<close> is a natural number below \<open>2 ^ 64\<close> with the
  wrap-around of its arithmetic written out.
\<close>

type_synonym addr = "64 word"

type_synonym 'a memory = "nat \<Rightarrow> 'a"

text \<open>
  The signal numbers of \<^verbatim>\<open>signal.h\<close> are not part of the repository;
  they are the numbers the Linux kernel gives them on the Android ABIs.
\<close>

definition SIGILL :: int where "SIGILL = 4"
definition SIGTRAP :: int where "SIGTRAP = 5"
definition SIGABRT :: int where "SIGABRT = 6"
definition SIGBUS :: int where "SIGBUS = 7"
definition SIGFPE :: int where "SIGFPE = 8"
definition SIGSEGV :: int where "SIGSEGV = 11"
definition SIGPIPE :: int where "SIGPIPE = 13"

definition SA_SIGINFO :: "32 word" where "SA_SIGINFO = 0x00000004"
definition SA_ONSTACK :: "32 word" where "SA_ONSTACK = 0x08000000"

definition NUL :: char where "NUL = CHR 0x00"
definition DQ :: char where "DQ = CHR 0x22"

text \<open>
  What a signal number is bound to: the default action, ignoring, a handler function
  of some other component (by its address), or this engine's \<^verbatim>\<open>signalHandler\<close>.
\<close>

datatype handler_fn = SIG_DFL | SIG_IGN | ForeignHandler addr | SignalHandlerFn

record sigaction_t =
  sa_handler :: handler_fn
  sa_flags :: "32 word"
  sa_mask :: "int set"

record stack_t =
  ss_sp :: addr
  ss_flags :: int
  ss_size :: nat

record siginfo_t =
  si_addr :: addr
  si_code :: int

record Dl_info =
  dli_fname :: "string option"
  dli_fbase :: addr
  dli_sname :: "string option"
  dli_saddr :: addr

text \<open>
  The effects that leave the engine, in the order they happen: log lines, the call of
  the registered callback with the report text, and every call of \<^verbatim>\<open>sigaction\<close>,
  \<^verbatim>\<open>raise\<close>, \<^verbatim>\<open>malloc\<close> (with the size asked for) and
  \<^verbatim>\<open>sigaltstack\<close> (with the region passed).
\<close>

datatype event =
    LOGD string
  | LOGE string
  | CallbackInvoked addr string
  | SigactionCall int sigaction_t
  | RaiseCall int
  | MallocCall nat
  | SigaltstackCall stack_t

section \<open>printf conversions and snprintf\<close>

definition digit_char :: "nat \<Rightarrow> char" where
  "digit_char d = ''0123456789abcdef'' ! d"

function fmt_lu :: "nat \<Rightarrow> string" where
  "fmt_lu n = (if n < 10 then [digit_char n] else fmt_lu (n div 10) @ [digit_char (n mod 10)])"
  by pat_completeness auto
termination
  by (relation "measure id") auto

declare fmt_lu.simps [simp del]

function fmt_x :: "nat \<Rightarrow> string" where
  "fmt_x n = (if n < 16 then [digit_char n] else fmt_x (n div 16) @ [digit_char (n mod 16)])"
  by pat_completeness auto
termination
  by (relation "measure id") auto

declare fmt_x.simps [simp del]

definition fmt_d :: "int \<Rightarrow> string" where
  "fmt_d i = (if i < 0 then CHR ''-'' # fmt_lu (nat (- i)) else fmt_lu (nat i))"

text \<open>\<^verbatim>\<open>%p\<close> as bionic prints it: \<^verbatim>\<open>0x\<close> and the lower-case hexadecimal digits.\<close>

definition fmt_p :: "addr \<Rightarrow> string" where
  "fmt_p a = ''0x'' @ fmt_x (unat a)"

text \<open>\<^verbatim>\<open>%td\<close> of a \<^verbatim>\<open>ptrdiff_t\<close>: the word read as a signed number.\<close>

definition fmt_td :: "64 word \<Rightarrow> string" where
  "fmt_td w = fmt_d (sint w)"

definition quoted :: "string \<Rightarrow> string" where
  "quoted s = DQ # s @ [DQ]"

text \<open>
  \<open>store_bytes m dst bs\<close> is the memory after the bytes \<open>bs\<close> were written to the
  cells \<open>dst, dst + 1, \<dots>\<close>. Cell \<open>i\<close> of a \<open>char memory\<close> is the byte at
  \<^verbatim>\<open>buffer + i\<close>, also beyond the end of the array.
\<close>

definition store_bytes :: "'a memory \<Rightarrow> nat \<Rightarrow> 'a list \<Rightarrow> 'a memory" where
  "store_bytes m dst bs = (\<lambda>i. if dst \<le> i \<and> i < dst + length bs then bs ! (i - dst) else m i)"

text \<open>\<^verbatim>\<open>a - b\<close> and \<^verbatim>\<open>a + b\<close> on \<^verbatim>\<open>size_t\<close>.\<close>

definition size_sub :: "nat \<Rightarrow> nat \<Rightarrow> nat" where
  "size_sub a b = (a + 2 ^ 64 - b mod 2 ^ 64) mod 2 ^ 64"

definition size_add :: "nat \<Rightarrow> nat \<Rightarrow> nat" where
  "size_add a b = (a + b) mod 2 ^ 64"

text \<open>
  \<^verbatim>\<open>snprintf(buffer + dst, sz, ...)\<close> where the conversions expand to \<open>s\<close>:
  with \<open>sz = 0\<close> nothing is written; otherwise at most \<open>sz - 1\<close> bytes of
  \<open>s\<close> and a terminating NUL. The result is the length of \<open>s\<close>, truncated or not.
\<close>

definition snprintf :: "char memory \<Rightarrow> nat \<Rightarrow> nat \<Rightarrow> string \<Rightarrow> nat \<times> char memory" where
  "snprintf buffer dst sz s =
     (length s,
      if sz = 0 then buffer else store_bytes buffer dst (take (sz - 1) s @ [NUL]))"

text \<open>The statement \<^verbatim>\<open>offset += snprintf(buffer + offset, bufferSize - offset, ...)\<close>.\<close>

definition emit :: "nat \<Rightarrow> string \<Rightarrow> char memory \<times> nat \<Rightarrow> char memory \<times> nat" where
  "emit bufferSize s st =
     (case st of (buffer, offset) \<Rightarrow>
        (case snprintf buffer offset (size_sub bufferSize offset) s of
           (n, buffer') \<Rightarrow> (buffer', size_add offset n)))"

text \<open>
  Reading a C string (\<^verbatim>\<open>%s\<close>, or the callback reading its argument): the bytes
  from cell \<open>i\<close> up to the first NUL, looking at no more than \<open>n\<close> cells.
\<close>

fun c_str :: "nat \<Rightarrow> char memory \<Rightarrow> nat \<Rightarrow> string" where
  "c_str 0 m i = []"
| "c_str (Suc n) m i = (if m i = NUL then [] else m i # c_str n m (Suc i))"

section \<open>Signal names\<close>

definition signalName :: "int \<Rightarrow> string" where
  "signalName signal =
     (if signal = SIGABRT then ''SIGABRT''
      else if signal = SIGBUS then ''SIGBUS''
      else if signal = SIGFPE then ''SIGFPE''
      else if signal = SIGILL then ''SIGILL''
      else if signal = SIGSEGV then ''SIGSEGV''
      else if signal = SIGTRAP then ''SIGTRAP''
      else if signal = SIGPIPE then ''SIGPIPE''
      else ''UNKNOWN'')"

definition signalDescription :: "int \<Rightarrow> string" where
  "signalDescription signal =
     (if signal = SIGABRT then ''Abort signal''
      else if signal = SIGBUS then ''Bus error (bad memory access)''
      else if signal = SIGFPE then ''Floating-point exception''
      else if signal = SIGILL then ''Illegal instruction''
      else if signal = SIGSEGV then ''Segmentation fault (invalid memory reference)''
      else if signal = SIGTRAP then ''Trace/breakpoint trap''
      else if signal = SIGPIPE then ''Broken pipe''
      else ''Unknown signal'')"

section \<open>Stack unwinding\<close>

text \<open>
  \<^verbatim>\<open>struct BacktraceState\<close>: both pointers as indices into the frame buffer.
\<close>

record BacktraceState =
  current :: nat
  end_p :: nat

datatype Unwind_Reason_Code = URC_NO_REASON | URC_END_OF_STACK

definition MAX_FRAMES :: nat where "MAX_FRAMES = 128"

text \<open>
  \<^verbatim>\<open>unwindCallback\<close>, given the instruction pointer \<^verbatim>\<open>_Unwind_GetIP(context)\<close>
  of the frame it is called for.
\<close>

definition unwindCallback ::
  "addr \<Rightarrow> BacktraceState \<times> addr memory \<Rightarrow> Unwind_Reason_Code \<times> BacktraceState \<times> addr memory" where
  "unwindCallback pc st =
     (case st of (state, frames) \<Rightarrow>
        if pc \<noteq> 0 then
          (if current state = end_p state then (URC_END_OF_STACK, state, frames)
           else (URC_NO_REASON, state\<lparr>current := current state + 1\<rparr>,
                 frames(current state := pc)))
        else (URC_NO_REASON, state, frames))"

text \<open>
  \<^verbatim>\<open>_Unwind_Backtrace\<close> with \<^verbatim>\<open>unwindCallback\<close>: the platform walks the call
  chain from the innermost frame outwards (the list of the frames' instruction
  pointers) and calls the callback for each, until the callback answers anything but
  \<^verbatim>\<open>_URC_NO_REASON\<close> or the chain ends.
\<close>

fun Unwind_Backtrace :: "addr list \<Rightarrow> BacktraceState \<times> addr memory \<Rightarrow> BacktraceState \<times> addr memory" where
  "Unwind_Backtrace [] st = st"
| "Unwind_Backtrace (pc # outer) st =
     (case unwindCallback pc st of
        (URC_NO_REASON, st') \<Rightarrow> Unwind_Backtrace outer st'
      | (URC_END_OF_STACK, st') \<Rightarrow> st')"

definition captureStackTrace :: "addr memory \<Rightarrow> nat \<Rightarrow> addr list \<Rightarrow> nat \<times> addr memory" where
  "captureStackTrace buffer maxFrames chain =
     (case Unwind_Backtrace chain (\<lparr>current = 0, end_p = 0 + maxFrames\<rparr>, buffer) of
        (state, buffer') \<Rightarrow> (current state - 0, buffer'))"

section \<open>Symbol resolution and the frame list\<close>

text \<open>\<^verbatim>\<open>lastSlash ? lastSlash + 1 : info.dli_fname\<close> with \<^verbatim>\<open>strrchr\<close>.\<close>

definition after_last_slash :: "string \<Rightarrow> string" where
  "after_last_slash fname =
     (if CHR ''/'' \<in> set fname then rev (takeWhile (\<lambda>c. c \<noteq> CHR ''/'') (rev fname))
      else fname)"

text \<open>
  The lookup in the loop body of \<^verbatim>\<open>formatStackTraceJson\<close>: module name, symbol
  name and symbol offset of one address. \<open>dladdr\<close> answers \<open>None\<close> where the
  platform's \<^verbatim>\<open>dladdr\<close> returns 0; a NULL name is \<open>None\<close>.
\<close>

definition resolve :: "(addr \<Rightarrow> Dl_info option) \<Rightarrow> addr \<Rightarrow> string \<times> string \<times> 64 word" where
  "resolve dladdr a =
     (case dladdr a of
        None \<Rightarrow> (''???'', ''???'', 0)
      | Some info \<Rightarrow>
          (let (symbolName, symbolOffset) =
                 (case dli_sname info of
                    Some sname \<Rightarrow> (sname, a - dli_saddr info)
                  | None \<Rightarrow> (''???'', 0));
               moduleName =
                 (case dli_fname info of
                    Some fname \<Rightarrow> after_last_slash fname
                  | None \<Rightarrow> ''???'')
           in (moduleName, symbolName, symbolOffset)))"

text \<open>The text of one frame object, as the format string of the loop body gives it.\<close>

definition frame_text :: "nat \<Rightarrow> addr \<Rightarrow> string \<times> string \<times> 64 word \<Rightarrow> string" where
  "frame_text i a r =
     (case r of (moduleName, symbolName, symbolOffset) \<Rightarrow>
        ''{'' @ quoted ''frame'' @ '':'' @ fmt_d (int i) @
        '','' @ quoted ''address'' @ '':'' @ quoted (fmt_p a) @
        '','' @ quoted ''module'' @ '':'' @ quoted moduleName @
        '','' @ quoted ''symbol'' @ '':'' @ quoted symbolName @
        '','' @ quoted ''offset'' @ '':'' @ quoted (fmt_td symbolOffset) @ ''}'')"

text \<open>
  The \<^verbatim>\<open>for\<close> loop of \<^verbatim>\<open>formatStackTraceJson\<close>, from index \<open>i\<close> on; the
  state is the buffer and the local \<^verbatim>\<open>offset\<close>.
\<close>

function format_frames ::
  "(addr \<Rightarrow> Dl_info option) \<Rightarrow> nat \<Rightarrow> addr memory \<Rightarrow> nat \<Rightarrow> nat \<Rightarrow>
   char memory \<times> nat \<Rightarrow> char memory \<times> nat" where
  "format_frames dladdr bufferSize frames frameCount i st =
     (if i < frameCount \<and> snd st < size_sub bufferSize 256 then
        format_frames dladdr bufferSize frames frameCount (i + 1)
          (emit bufferSize (frame_text i (frames i) (resolve dladdr (frames i)))
             (if i > 0 then emit bufferSize '','' st else st))
      else st)"
  by pat_completeness auto
termination
  by (relation "measure (\<lambda>(dladdr, bufferSize, frames, frameCount, i, st). frameCount - i)") auto

declare format_frames.simps [simp del]

text \<open>
  \<^verbatim>\<open>formatStackTraceJson\<close>: the buffer it leaves, and the final value of its local
  \<^verbatim>\<open>offset\<close> (the cell after the last byte a snprintf call was asked to write).
\<close>

definition formatStackTraceJson ::
  "(addr \<Rightarrow> Dl_info option) \<Rightarrow> char memory \<Rightarrow> nat \<Rightarrow> addr memory \<Rightarrow> nat \<Rightarrow> char memory \<times> nat" where
  "formatStackTraceJson dladdr buffer bufferSize frames frameCount =
     emit bufferSize '']''
       (format_frames dladdr bufferSize frames frameCount 0
          (emit bufferSize ''['' (buffer, 0)))"

section \<open>The engine's state\<close>

definition kSignalsToHandle :: "int list" where
  "kSignalsToHandle = [SIGABRT, SIGBUS, SIGFPE, SIGILL, SIGSEGV, SIGTRAP, SIGPIPE]"

definition kNumSignals :: nat where
  "kNumSignals = length kSignalsToHandle"

text \<open>
  The file's static variables, and with them the part of the process they act on:
  \<open>installed\<close> is the kernel's table of dispositions, \<open>altstack\<close> the registered
  alternate signal stack, \<open>events\<close> the effects so far. Four fields describe the
  platform and are never written by the engine: \<open>sigaction_rejects\<close> (the signal
  numbers for which \<^verbatim>\<open>sigaction\<close> fails), \<open>SIGSTKSZ\<close> and \<open>MINSIGSTKSZ\<close>
  (the header's constants) and \<open>malloc_results\<close> (what the coming \<^verbatim>\<open>malloc\<close>
  calls return, 0 for NULL; only \<^verbatim>\<open>malloc\<close> consumes it).
\<close>

record process =
  previousHandlers :: "int \<Rightarrow> sigaction_t"
  crashCallback :: "addr option"
  isHandlingCrash :: int
  isInitialized :: int
  javaVM :: addr
  crashJsonBuffer :: "char memory"
  stackFrames :: "addr memory"
  stackFrameCount :: nat
  installed :: "int \<Rightarrow> sigaction_t"
  altstack :: "stack_t option"
  events :: "event list"
  sigaction_rejects :: "int \<Rightarrow> bool"
  SIGSTKSZ :: nat
  MINSIGSTKSZ :: nat
  malloc_results :: "addr list"

text \<open>
  What the platform hands to one run of the signal handler: the call chain
  \<^verbatim>\<open>_Unwind_Backtrace\<close> walks (instruction pointers, innermost first), the answers
  of \<^verbatim>\<open>dladdr\<close>, \<^verbatim>\<open>pthread_self()\<close>, and the bytes the local array
  \<^verbatim>\<open>stackTraceJson\<close> holds before it is written.
\<close>

record crash_env =
  call_chain :: "addr list"
  dladdr_of :: "addr \<Rightarrow> Dl_info option"
  thread_self :: nat
  stack_garbage :: "char memory"

definition log_event :: "event \<Rightarrow> process \<Rightarrow> process" where
  "log_event e s = s\<lparr>events := events s @ [e]\<rparr>"

text \<open>
  \<^verbatim>\<open>sigaction(sig, &act, oldact)\<close>: the return value, the previous disposition (what
  a non-NULL \<^verbatim>\<open>oldact\<close> receives on success) and the process afterwards.
\<close>

definition sigaction :: "int \<Rightarrow> sigaction_t \<Rightarrow> process \<Rightarrow> int \<times> sigaction_t option \<times> process" where
  "sigaction sig act s =
     (let s1 = log_event (SigactionCall sig act) s in
      if sigaction_rejects s sig then (- 1, None, s1)
      else (0, Some (installed s sig), s1\<lparr>installed := (installed s)(sig := act)\<rparr>))"

definition malloc :: "nat \<Rightarrow> process \<Rightarrow> addr \<times> process" where
  "malloc n s =
     (let s1 = log_event (MallocCall n) s in
      case malloc_results s of
        [] \<Rightarrow> (0, s1)
      | p # ps \<Rightarrow> (p, s1\<lparr>malloc_results := ps\<rparr>))"

text \<open>
  \<^verbatim>\<open>sigaltstack(&ss, NULL)\<close> from a thread that is not running on an alternate
  stack, with \<^verbatim>\<open>ss_flags\<close> 0: it fails (ENOMEM) for a region smaller than
  \<open>MINSIGSTKSZ\<close> and registers the region otherwise.
\<close>

definition sigaltstack :: "stack_t \<Rightarrow> process \<Rightarrow> int \<times> process" where
  "sigaltstack ss s =
     (let s1 = log_event (SigaltstackCall ss) s in
      if ss_size ss < MINSIGSTKSZ s then (- 1, s1)
      else (0, s1\<lparr>altstack := Some ss\<rparr>))"

text \<open>
  The stack on which the platform runs the handler bound to a signal: the registered
  alternate stack when the disposition carries \<^verbatim>\<open>SA_ONSTACK\<close> and one is
  registered, the interrupted thread's own stack (\<open>None\<close>) otherwise. The process of
  this model has one thread, the one that calls initialize.
\<close>

definition handler_stack :: "process \<Rightarrow> int \<Rightarrow> stack_t option" where
  "handler_stack s sig =
     (if sa_flags (installed s sig) AND SA_ONSTACK = 0 then None else altstack s)"

definition raise_signal :: "int \<Rightarrow> process \<Rightarrow> process" where
  "raise_signal sig s = log_event (RaiseCall sig) s"

section \<open>The signal handler\<close>

text \<open>\<^verbatim>\<open>sizeof(stackTraceJson)\<close>, the local array of \<^verbatim>\<open>signalHandler\<close>.\<close>

definition stackTraceJson_size :: nat where
  "stackTraceJson_size = 16384"

text \<open>The text the second \<^verbatim>\<open>snprintf\<close> of \<^verbatim>\<open>signalHandler\<close> is asked to write.\<close>

definition crash_json ::
  "int \<Rightarrow> addr \<Rightarrow> nat \<Rightarrow> int \<Rightarrow> string \<Rightarrow> string" where
  "crash_json signal faultAddress thread siCode stackTraceJson =
     ''{'' @ quoted ''signal'' @ '':'' @ fmt_d signal @
     '','' @ quoted ''signalName'' @ '':'' @ quoted (signalName signal) @
     '','' @ quoted ''signalDescription'' @ '':'' @ quoted (signalDescription signal) @
     '','' @ quoted ''faultAddress'' @ '':'' @ quoted (fmt_p faultAddress) @
     '','' @ quoted ''threadId'' @ '':'' @ fmt_lu thread @
     '','' @ quoted ''siCode'' @ '':'' @ fmt_d siCode @
     '','' @ quoted ''frames'' @ '':'' @ stackTraceJson @ ''}''"

definition signalHandler :: "int \<Rightarrow> siginfo_t option \<Rightarrow> crash_env \<Rightarrow> process \<Rightarrow> process" where
  "signalHandler signal info env s =
     (if isHandlingCrash s \<noteq> 0 then s
      else
        let s1 = s\<lparr>isHandlingCrash := 1\<rparr>;
            s2 = log_event (LOGE (''Caught signal '' @ fmt_d signal @ '' ('' @ signalName signal @ '')'')) s1;
            faultAddress = (case info of Some i \<Rightarrow> si_addr i | None \<Rightarrow> 0);
            captured = captureStackTrace (stackFrames s2) MAX_FRAMES (call_chain env);
            s3 = s2\<lparr>stackFrames := snd captured, stackFrameCount := fst captured\<rparr>;
            stackTraceJson =
              fst (formatStackTraceJson (dladdr_of env) (stack_garbage env) stackTraceJson_size
                     (stackFrames s3) (stackFrameCount s3));
            thread = thread_self env;
            s4 = s3\<lparr>crashJsonBuffer :=
                   snd (snprintf (crashJsonBuffer s3) 0 32768
                          (crash_json signal faultAddress thread
                             (case info of Some i \<Rightarrow> si_code i | None \<Rightarrow> 0)
                             (c_str stackTraceJson_size stackTraceJson 0)))\<rparr>;
            s5 = (case crashCallback s4 of
                    Some cb \<Rightarrow> log_event (CallbackInvoked cb (c_str 32768 (crashJsonBuffer s4) 0)) s4
                  | None \<Rightarrow> s4);
            previousHandler = previousHandlers s5 signal;
            s6 = snd (snd (sigaction signal previousHandler s5))
        in raise_signal signal s6)"

section \<open>The public interface\<close>

definition MoonForge_Android_SetJavaVM :: "addr \<Rightarrow> process \<Rightarrow> process" where
  "MoonForge_Android_SetJavaVM vm s = s\<lparr>javaVM := vm\<rparr>"

text \<open>The body of the installation loop for one signal number.\<close>

definition install_handler :: "int \<Rightarrow> process \<Rightarrow> process" where
  "install_handler sig s =
     (let action = \<lparr>sa_handler = SignalHandlerFn,
                     sa_flags = SA_SIGINFO OR SA_ONSTACK,
                     sa_mask = {}\<rparr>
      in case sigaction sig action s of
           (rc, old, s1) \<Rightarrow>
             (let s2 = (case old of
                          Some prev \<Rightarrow> s1\<lparr>previousHandlers := (previousHandlers s1)(sig := prev)\<rparr>
                        | None \<Rightarrow> s1)
              in if rc \<noteq> 0
                 then log_event (LOGE (''Failed to install handler for signal '' @ fmt_d sig)) s2
                 else s2))"

definition MoonForge_Android_InitializeCrashHandler :: "addr option \<Rightarrow> process \<Rightarrow> process" where
  "MoonForge_Android_InitializeCrashHandler callback s =
     (if isInitialized s \<noteq> 0 then log_event (LOGD ''Crash handler already initialized'') s
      else
        let s1 = s\<lparr>crashCallback := callback\<rparr>;
            s2 = fold install_handler kSignalsToHandle s1
        in case malloc (SIGSTKSZ s2) s2 of
             (sp, s3) \<Rightarrow>
               (let s4 = (if sp \<noteq> 0
                          then snd (sigaltstack
                                      \<lparr>ss_sp = sp, ss_flags = 0, ss_size = SIGSTKSZ s3\<rparr> s3)
                          else s3);
                    s5 = s4\<lparr>isInitialized := 1\<rparr>
                in log_event (LOGD ''Crash handler initialized'') s5))"

text \<open>The body of the restoring loop for one signal number.\<close>

definition restore_handler :: "int \<Rightarrow> process \<Rightarrow> process" where
  "restore_handler sig s = snd (snd (sigaction sig (previousHandlers s sig) s))"

definition MoonForge_Android_ShutdownCrashHandler :: "process \<Rightarrow> process" where
  "MoonForge_Android_ShutdownCrashHandler s =
     (if isInitialized s = 0 then s
      else
        let s1 = fold restore_handler kSignalsToHandle s;
            s2 = s1\<lparr>crashCallback := None\<rparr>;
            s3 = s2\<lparr>isInitialized := 0\<rparr>
        in log_event (LOGD ''Crash handler shutdown'') s3)"

definition MoonForge_Android_IsInitialized :: "process \<Rightarrow> int" where
  "MoonForge_Android_IsInitialized s = isInitialized s"

definition nativeInit :: "process \<Rightarrow> process" where
  "nativeInit s = log_event (LOGD ''Native init called from Java'') s"

definition nativeShutdown :: "process \<Rightarrow> process" where
  "nativeShutdown s = MoonForge_Android_ShutdownCrashHandler s"

definition JNI_OnLoad :: "addr \<Rightarrow> process \<Rightarrow> process" where
  "JNI_OnLoad vm s = log_event (LOGD ''JNI_OnLoad: JavaVM set'') (s\<lparr>javaVM := vm\<rparr>)"

text \<open>
  One step of the process as far as the engine is concerned: a call of one of its entry
  points, or the platform entering \<^verbatim>\<open>signalHandler\<close> for a delivered signal.
\<close>

datatype operation =
    Initialize "addr option"
  | Shutdown
  | SetJavaVM addr
  | NativeInit
  | NativeShutdown
  | OnLoad addr
  | Deliver int "siginfo_t option" crash_env

fun step :: "operation \<Rightarrow> process \<Rightarrow> process" where
  "step (Initialize callback) s = MoonForge_Android_InitializeCrashHandler callback s"
| "step Shutdown s = MoonForge_Android_ShutdownCrashHandler s"
| "step (SetJavaVM vm) s = MoonForge_Android_SetJavaVM vm s"
| "step NativeInit s = nativeInit s"
| "step NativeShutdown s = nativeShutdown s"
| "step (OnLoad vm) s = JNI_OnLoad vm s"
| "step (Deliver signal info env) s = signalHandler signal info env s"

definition run :: "operation list \<Rightarrow> process \<Rightarrow> process" where
  "run ops s = fold step ops s"

text \<open>The process before any call: the static variables as the loader zeroes them.\<close>

definition zero_sigaction :: sigaction_t where
  "zero_sigaction = \<lparr>sa_handler = SIG_DFL, sa_flags = 0, sa_mask = {}\<rparr>"

definition fresh_process ::
  "(int \<Rightarrow> sigaction_t) \<Rightarrow> (int \<Rightarrow> bool) \<Rightarrow> nat \<Rightarrow> nat \<Rightarrow> addr list \<Rightarrow> process" where
  "fresh_process dispositions rejects stksz minstksz mallocs =
     \<lparr>previousHandlers = (\<lambda>sig. zero_sigaction),
      crashCallback = None,
      isHandlingCrash = 0,
      isInitialized = 0,
      javaVM = 0,
      crashJsonBuffer = (\<lambda>i. NUL),
      stackFrames = (\<lambda>i. 0),
      stackFrameCount = 0,
      installed = dispositions,
      altstack = None,
      events = [],
      sigaction_rejects = rejects,
      SIGSTKSZ = stksz,
      MINSIGSTKSZ = minstksz,
      malloc_results = mallocs\<rparr>"

section \<open>Observations and example inputs\<close>

fun is_callback :: "event \<Rightarrow> bool" where
  "is_callback (CallbackInvoked cb json) = True"
| "is_callback e = False"

text \<open>The callback invocations among the effects so far.\<close>

definition callbacks :: "process \<Rightarrow> event list" where
  "callbacks s = filter is_callback (events s)"

fun is_initialize :: "operation \<Rightarrow> bool" where
  "is_initialize (Initialize callback) = True"
| "is_initialize x = False"

text \<open>
  The effects of one round of the installation loop: the \<^verbatim>\<open>sigaction\<close> call and,
  where the platform rejects it, the error line.
\<close>

definition install_events :: "(int \<Rightarrow> bool) \<Rightarrow> int \<Rightarrow> event list" where
  "install_events rejects sig =
     [SigactionCall sig \<lparr>sa_handler = SignalHandlerFn,
                         sa_flags = SA_SIGINFO OR SA_ONSTACK, sa_mask = {}\<rparr>] @
     (if rejects sig then [LOGE (''Failed to install handler for signal '' @ fmt_d sig)] else [])"

text \<open>
  A small process to run the engine on: another component's handler is bound to
  SIGSEGV, everything else is at its default, the platform rejects \<^verbatim>\<open>sigaction\<close>
  for SIGBUS, \<open>SIGSTKSZ\<close> is 16384 and \<open>MINSIGSTKSZ\<close> 5120 (as on 64-bit ARM),
  and one allocation succeeds.
\<close>

definition demo_dladdr :: "addr \<Rightarrow> Dl_info option" where
  "demo_dladdr a =
     (if a = 0x1010 then
        Some \<lparr>dli_fname = Some ''/data/app/lib/arm64/libgame.so'', dli_fbase = 0x1000,
              dli_sname = Some ''crash_here'', dli_saddr = 0x1000\<rparr>
      else if a = 0x2020 then None
      else if a = 0x3030 then
        Some \<lparr>dli_fname = Some ''libc.so'', dli_fbase = 0x3000,
              dli_sname = None, dli_saddr = 0\<rparr>
      else Some \<lparr>dli_fname = None, dli_fbase = 0,
                 dli_sname = Some ''anon_fn'', dli_saddr = 0x4000\<rparr>)"

definition demo_env :: crash_env where
  "demo_env = \<lparr>call_chain = [0x1010, 0x2020, 0x3030], dladdr_of = demo_dladdr,
               thread_self = 4242, stack_garbage = (\<lambda>i. CHR ''x'')\<rparr>"

definition demo_dispositions :: "int \<Rightarrow> sigaction_t" where
  "demo_dispositions sig =
     (if sig = SIGSEGV
      then \<lparr>sa_handler = ForeignHandler 0x7100, sa_flags = SA_SIGINFO, sa_mask = {}\<rparr>
      else zero_sigaction)"

definition demo_process :: process where
  "demo_process =
     fresh_process demo_dispositions (\<lambda>sig. sig = SIGBUS) 16384 5120 [0x7f0000]"

text \<open>The same platform with no memory left: every \<^verbatim>\<open>malloc\<close> returns NULL.\<close>

definition oom_process :: process where
  "oom_process = fresh_process demo_dispositions (\<lambda>sig. False) 16384 5120 []"

text \<open>The demo process after its first handled crash, and what happens to it later.\<close>

definition crashed_process :: process where
  "crashed_process =
     signalHandler SIGSEGV (Some \<lparr>si_addr = 0, si_code = 1\<rparr>) demo_env
       (MoonForge_Android_InitializeCrashHandler (Some 0x5000) demo_process)"

definition later_ops :: "operation list" where
  "later_ops = [Deliver SIGABRT None demo_env, Shutdown, Initialize (Some 0x5000),
                Deliver SIGSEGV (Some \<lparr>si_addr = 8, si_code = 1\<rparr>) demo_env]"

text \<open>A call chain deeper than the frame buffer: a function that calls itself.\<close>

definition deep_chain :: "addr list" where
  "deep_chain = replicate 130 0x4000"

section \<open>What the serializer is expected to leave\<close>

text \<open>
  The text the loop adds for frame \<open>i\<close> (a comma before every frame but the first),
  the document up to and without frame \<open>k\<close>, and the closed document that lists the
  frames below \<open>k\<close>.
\<close>

definition frame_piece :: "(addr \<Rightarrow> Dl_info option) \<Rightarrow> addr memory \<Rightarrow> nat \<Rightarrow> string" where
  "frame_piece dladdr frames i =
     (if 0 < i then '','' else []) @ frame_text i (frames i) (resolve dladdr (frames i))"

definition frames_prefix :: "(addr \<Rightarrow> Dl_info option) \<Rightarrow> addr memory \<Rightarrow> nat \<Rightarrow> string" where
  "frames_prefix dladdr frames k = ''['' @ concat (map (frame_piece dladdr frames) [0..<k])"

definition frames_json :: "(addr \<Rightarrow> Dl_info option) \<Rightarrow> addr memory \<Rightarrow> nat \<Rightarrow> string" where
  "frames_json dladdr frames k = frames_prefix dladdr frames k @ '']''"

text \<open>The buffer starts with the bytes of \<open>s\<close>, followed by a NUL.\<close>

definition mem_holds :: "char memory \<Rightarrow> string \<Rightarrow> bool" where
  "mem_holds m s = (map m [0..<length s] = s \<and> m (length s) = NUL)"

text \<open>The three frames of the demo call chain, as the unwinder leaves them.\<close>

definition demo_frames :: "addr memory" where
  "demo_frames = store_bytes (\<lambda>i. 0) 0 [0x1010, 0x2020, 0x3030]"

text \<open>
  A library whose one symbol has a name of 16384 characters, the frame object of an
  address in it, and the serializer run as the handler runs it (its buffer size, the
  frames and the count the unwinder returns) on a call chain of that single frame.
\<close>

definition long_dladdr :: "addr \<Rightarrow> Dl_info option" where
  "long_dladdr a =
     Some \<lparr>dli_fname = Some ''/data/app/lib/arm64/libgame.so'', dli_fbase = 0x1000,
           dli_sname = Some (replicate 16384 CHR ''a''), dli_saddr = 0x1000\<rparr>"

definition long_text :: string where
  "long_text = frame_text 0 0x1010 (resolve long_dladdr 0x1010)"

definition overflow_run :: "char memory \<times> nat" where
  "overflow_run =
     (let captured = captureStackTrace (\<lambda>i. 0) MAX_FRAMES [0x1010]
      in formatStackTraceJson long_dladdr (\<lambda>i. CHR ''x'') 16384 (snd captured) (fst captured))"

section \<open>The installation and restoring loops\<close>

lemmas sig_defs =
  kSignalsToHandle_def SIGABRT_def SIGBUS_def SIGFPE_def SIGILL_def SIGSEGV_def
  SIGTRAP_def SIGPIPE_def

lemmas demo_defs = demo_process_def fresh_process_def demo_dispositions_def zero_sigaction_def

lemma kSignals_distinct: "distinct kSignalsToHandle"
  by (simp add: sig_defs)

lemma install_handler_fields [simp]:
  "isHandlingCrash (install_handler sig s) = isHandlingCrash s"
  "isInitialized (install_handler sig s) = isInitialized s"
  "crashCallback (install_handler sig s) = crashCallback s"
  "crashJsonBuffer (install_handler sig s) = crashJsonBuffer s"
  "javaVM (install_handler sig s) = javaVM s"
  "stackFrames (install_handler sig s) = stackFrames s"
  "stackFrameCount (install_handler sig s) = stackFrameCount s"
  "altstack (install_handler sig s) = altstack s"
  "sigaction_rejects (install_handler sig s) = sigaction_rejects s"
  "SIGSTKSZ (install_handler sig s) = SIGSTKSZ s"
  "MINSIGSTKSZ (install_handler sig s) = MINSIGSTKSZ s"
  "malloc_results (install_handler sig s) = malloc_results s"
  by (simp_all add: install_handler_def sigaction_def log_event_def Let_def)

lemma install_handler_installed:
  "installed (install_handler sig s) =
     (if sigaction_rejects s sig then installed s
      else (installed s)(sig := \<lparr>sa_handler = SignalHandlerFn,
                                   sa_flags = SA_SIGINFO OR SA_ONSTACK, sa_mask = {}\<rparr>))"
  by (simp add: install_handler_def sigaction_def log_event_def Let_def)

lemma install_handler_previous:
  "previousHandlers (install_handler sig s) =
     (if sigaction_rejects s sig then previousHandlers s
      else (previousHandlers s)(sig := installed s sig))"
  by (simp add: install_handler_def sigaction_def log_event_def Let_def)

lemma install_handler_events:
  "events (install_handler sig s) = events s @ install_events (sigaction_rejects s) sig"
  by (simp add: install_handler_def sigaction_def log_event_def Let_def install_events_def)

lemma fold_install_fields [simp]:
  "isHandlingCrash (fold install_handler xs s) = isHandlingCrash s"
  "isInitialized (fold install_handler xs s) = isInitialized s"
  "crashCallback (fold install_handler xs s) = crashCallback s"
  "crashJsonBuffer (fold install_handler xs s) = crashJsonBuffer s"
  "javaVM (fold install_handler xs s) = javaVM s"
  "stackFrames (fold install_handler xs s) = stackFrames s"
  "stackFrameCount (fold install_handler xs s) = stackFrameCount s"
  "altstack (fold install_handler xs s) = altstack s"
  "sigaction_rejects (fold install_handler xs s) = sigaction_rejects s"
  "SIGSTKSZ (fold install_handler xs s) = SIGSTKSZ s"
  "MINSIGSTKSZ (fold install_handler xs s) = MINSIGSTKSZ s"
  "malloc_results (fold install_handler xs s) = malloc_results s"
  by (induction xs arbitrary: s; simp)+

lemma fold_install_installed:
  "installed (fold install_handler xs s) sig =
     (if sig \<in> set xs \<and> \<not> sigaction_rejects s sig
      then \<lparr>sa_handler = SignalHandlerFn, sa_flags = SA_SIGINFO OR SA_ONSTACK, sa_mask = {}\<rparr>
      else installed s sig)"
  by (induction xs arbitrary: s) (auto simp: install_handler_installed)

lemma fold_install_previous:
  "distinct xs \<Longrightarrow>
   previousHandlers (fold install_handler xs s) sig =
     (if sig \<in> set xs \<and> \<not> sigaction_rejects s sig then installed s sig
      else previousHandlers s sig)"
  by (induction xs arbitrary: s)
     (auto simp: install_handler_installed install_handler_previous fold_install_installed)

lemma fold_install_events:
  "events (fold install_handler xs s) =
     events s @ concat (map (install_events (sigaction_rejects s)) xs)"
  by (induction xs arbitrary: s) (auto simp: install_handler_events)

lemma restore_handler_fields [simp]:
  "isHandlingCrash (restore_handler sig s) = isHandlingCrash s"
  "isInitialized (restore_handler sig s) = isInitialized s"
  "crashCallback (restore_handler sig s) = crashCallback s"
  "crashJsonBuffer (restore_handler sig s) = crashJsonBuffer s"
  "javaVM (restore_handler sig s) = javaVM s"
  "stackFrames (restore_handler sig s) = stackFrames s"
  "stackFrameCount (restore_handler sig s) = stackFrameCount s"
  "altstack (restore_handler sig s) = altstack s"
  "sigaction_rejects (restore_handler sig s) = sigaction_rejects s"
  "SIGSTKSZ (restore_handler sig s) = SIGSTKSZ s"
  "MINSIGSTKSZ (restore_handler sig s) = MINSIGSTKSZ s"
  "malloc_results (restore_handler sig s) = malloc_results s"
  "previousHandlers (restore_handler sig s) = previousHandlers s"
  by (simp_all add: restore_handler_def sigaction_def log_event_def Let_def)

lemma restore_handler_installed:
  "installed (restore_handler sig s) =
     (if sigaction_rejects s sig then installed s
      else (installed s)(sig := previousHandlers s sig))"
  by (simp add: restore_handler_def sigaction_def log_event_def Let_def)

lemma restore_handler_events:
  "events (restore_handler sig s) = events s @ [SigactionCall sig (previousHandlers s sig)]"
  by (simp add: restore_handler_def sigaction_def log_event_def Let_def)

lemma fold_restore_fields [simp]:
  "isHandlingCrash (fold restore_handler xs s) = isHandlingCrash s"
  "isInitialized (fold restore_handler xs s) = isInitialized s"
  "crashCallback (fold restore_handler xs s) = crashCallback s"
  "crashJsonBuffer (fold restore_handler xs s) = crashJsonBuffer s"
  "javaVM (fold restore_handler xs s) = javaVM s"
  "stackFrames (fold restore_handler xs s) = stackFrames s"
  "stackFrameCount (fold restore_handler xs s) = stackFrameCount s"
  "altstack (fold restore_handler xs s) = altstack s"
  "sigaction_rejects (fold restore_handler xs s) = sigaction_rejects s"
  "SIGSTKSZ (fold restore_handler xs s) = SIGSTKSZ s"
  "MINSIGSTKSZ (fold restore_handler xs s) = MINSIGSTKSZ s"
  "malloc_results (fold restore_handler xs s) = malloc_results s"
  "previousHandlers (fold restore_handler xs s) = previousHandlers s"
  by (induction xs arbitrary: s; simp)+

lemma fold_restore_installed:
  "installed (fold restore_handler xs s) sig =
     (if sig \<in> set xs \<and> \<not> sigaction_rejects s sig then previousHandlers s sig
      else installed s sig)"
  by (induction xs arbitrary: s) (auto simp: restore_handler_installed)

lemma fold_restore_events:
  "events (fold restore_handler xs s) =
     events s @ map (\<lambda>sig. SigactionCall sig (previousHandlers s sig)) xs"
  by (induction xs arbitrary: s) (auto simp: restore_handler_events)

section \<open>Initialize and shutdown\<close>

lemmas initialize_unfold =
  MoonForge_Android_InitializeCrashHandler_def log_event_def malloc_def sigaltstack_def Let_def

lemma initialize_noop:
  "isInitialized s \<noteq> 0 \<Longrightarrow>
   MoonForge_Android_InitializeCrashHandler callback s =
     s\<lparr>events := events s @ [LOGD ''Crash handler already initialized'']\<rparr>"
  by (simp add: MoonForge_Android_InitializeCrashHandler_def log_event_def)

lemma initialize_sets_initialized:
  "isInitialized (MoonForge_Android_InitializeCrashHandler callback s) \<noteq> 0"
  by (simp add: initialize_unfold split: list.split prod.split)

lemma initialize_events:
  "isInitialized s = 0 \<Longrightarrow>
   events (MoonForge_Android_InitializeCrashHandler callback s) =
     events s @ concat (map (install_events (sigaction_rejects s)) kSignalsToHandle) @
     [MallocCall (SIGSTKSZ s)] @
     (case malloc_results s of
        [] \<Rightarrow> []
      | p # ps \<Rightarrow>
          if p \<noteq> 0
          then [SigaltstackCall \<lparr>ss_sp = p, ss_flags = 0, ss_size = SIGSTKSZ s\<rparr>]
          else []) @
     [LOGD ''Crash handler initialized'']"
  by (simp add: initialize_unfold fold_install_events split: list.split prod.split)

lemma initialize_installed:
  "isInitialized s = 0 \<Longrightarrow>
   installed (MoonForge_Android_InitializeCrashHandler callback s) sig =
     (if sig \<in> set kSignalsToHandle \<and> \<not> sigaction_rejects s sig
      then \<lparr>sa_handler = SignalHandlerFn, sa_flags = SA_SIGINFO OR SA_ONSTACK, sa_mask = {}\<rparr>
      else installed s sig)"
  by (simp add: initialize_unfold fold_install_installed split: list.split prod.split)

lemma initialize_previous:
  "isInitialized s = 0 \<Longrightarrow>
   previousHandlers (MoonForge_Android_InitializeCrashHandler callback s) sig =
     (if sig \<in> set kSignalsToHandle \<and> \<not> sigaction_rejects s sig then installed s sig
      else previousHandlers s sig)"
  by (simp add: initialize_unfold fold_install_previous kSignals_distinct
      split: list.split prod.split)

lemma initialize_fields [simp]:
  "isHandlingCrash (MoonForge_Android_InitializeCrashHandler callback s) = isHandlingCrash s"
  "crashJsonBuffer (MoonForge_Android_InitializeCrashHandler callback s) = crashJsonBuffer s"
  "sigaction_rejects (MoonForge_Android_InitializeCrashHandler callback s) = sigaction_rejects s"
  "SIGSTKSZ (MoonForge_Android_InitializeCrashHandler callback s) = SIGSTKSZ s"
  "MINSIGSTKSZ (MoonForge_Android_InitializeCrashHandler callback s) = MINSIGSTKSZ s"
  by (simp_all add: initialize_unfold split: list.split prod.split)

lemma shutdown_fields [simp]:
  "isHandlingCrash (MoonForge_Android_ShutdownCrashHandler s) = isHandlingCrash s"
  "crashJsonBuffer (MoonForge_Android_ShutdownCrashHandler s) = crashJsonBuffer s"
  "sigaction_rejects (MoonForge_Android_ShutdownCrashHandler s) = sigaction_rejects s"
  "SIGSTKSZ (MoonForge_Android_ShutdownCrashHandler s) = SIGSTKSZ s"
  "MINSIGSTKSZ (MoonForge_Android_ShutdownCrashHandler s) = MINSIGSTKSZ s"
  "previousHandlers (MoonForge_Android_ShutdownCrashHandler s) = previousHandlers s"
  by (simp_all add: MoonForge_Android_ShutdownCrashHandler_def log_event_def Let_def)

lemma install_events_no_callback [simp]:
  "filter is_callback (concat (map (install_events rejects) xs)) = []"
  by (induction xs) (auto simp: install_events_def)

lemma initialize_callbacks [simp]:
  "callbacks (MoonForge_Android_InitializeCrashHandler callback s) = callbacks s"
  by (cases "isInitialized s = 0")
     (simp_all add: callbacks_def initialize_events initialize_noop split: list.split)

lemma shutdown_events:
  "isInitialized s \<noteq> 0 \<Longrightarrow>
   events (MoonForge_Android_ShutdownCrashHandler s) =
     events s @ map (\<lambda>sig. SigactionCall sig (previousHandlers s sig)) kSignalsToHandle @
     [LOGD ''Crash handler shutdown'']"
  by (simp add: MoonForge_Android_ShutdownCrashHandler_def log_event_def Let_def
      fold_restore_events)

lemma shutdown_callbacks [simp]:
  "callbacks (MoonForge_Android_ShutdownCrashHandler s) = callbacks s"
  by (simp add: callbacks_def MoonForge_Android_ShutdownCrashHandler_def log_event_def Let_def
      fold_restore_events filter_map comp_def)

section \<open>The signal handler and the reentrancy flag\<close>

lemmas handler_unfold =
  signalHandler_def Let_def raise_signal_def log_event_def sigaction_def

lemma signalHandler_guarded:
  "isHandlingCrash s \<noteq> 0 \<Longrightarrow> signalHandler signal info env s = s"
  by (simp add: signalHandler_def)

lemma signalHandler_flag: "isHandlingCrash (signalHandler signal info env s) \<noteq> 0"
  by (simp add: handler_unfold split: option.split)

lemma signalHandler_events:
  "isHandlingCrash s = 0 \<Longrightarrow>
   events (signalHandler signal info env s) =
     events s @
     [LOGE (''Caught signal '' @ fmt_d signal @ '' ('' @ signalName signal @ '')'')] @
     (case crashCallback s of
        Some cb \<Rightarrow>
          [CallbackInvoked cb (c_str 32768 (crashJsonBuffer (signalHandler signal info env s)) 0)]
      | None \<Rightarrow> []) @
     [SigactionCall signal (previousHandlers s signal), RaiseCall signal]"
  by (simp add: handler_unfold split: option.split)

lemma signalHandler_installed:
  "isHandlingCrash s = 0 \<Longrightarrow>
   installed (signalHandler signal info env s) =
     (if sigaction_rejects s signal then installed s
      else (installed s)(signal := previousHandlers s signal))"
  by (simp add: handler_unfold split: option.split)

lemma signalHandler_callbacks_le:
  "length (callbacks (signalHandler signal info env s)) \<le> Suc (length (callbacks s))"
  by (cases "isHandlingCrash s = 0")
     (simp_all add: callbacks_def signalHandler_events signalHandler_guarded split: option.split)

lemma entry_point_fields [simp]:
  "isHandlingCrash (MoonForge_Android_SetJavaVM vm s) = isHandlingCrash s"
  "crashJsonBuffer (MoonForge_Android_SetJavaVM vm s) = crashJsonBuffer s"
  "callbacks (MoonForge_Android_SetJavaVM vm s) = callbacks s"
  "isHandlingCrash (nativeInit s) = isHandlingCrash s"
  "crashJsonBuffer (nativeInit s) = crashJsonBuffer s"
  "callbacks (nativeInit s) = callbacks s"
  "isHandlingCrash (JNI_OnLoad vm s) = isHandlingCrash s"
  "crashJsonBuffer (JNI_OnLoad vm s) = crashJsonBuffer s"
  "callbacks (JNI_OnLoad vm s) = callbacks s"
  by (simp_all add: MoonForge_Android_SetJavaVM_def nativeInit_def JNI_OnLoad_def
      log_event_def callbacks_def)

lemma nativeShutdown_fields [simp]:
  "isHandlingCrash (nativeShutdown s) = isHandlingCrash s"
  "crashJsonBuffer (nativeShutdown s) = crashJsonBuffer s"
  "callbacks (nativeShutdown s) = callbacks s"
  by (simp_all add: nativeShutdown_def)

lemma step_entry_point:
  "\<not> (\<exists>signal info env. op = Deliver signal info env) \<Longrightarrow>
   isHandlingCrash (step op s) = isHandlingCrash s \<and>
   crashJsonBuffer (step op s) = crashJsonBuffer s \<and>
   callbacks (step op s) = callbacks s"
  by (cases op) simp_all

lemma step_guarded:
  "isHandlingCrash s \<noteq> 0 \<Longrightarrow>
   isHandlingCrash (step op s) \<noteq> 0 \<and>
   crashJsonBuffer (step op s) = crashJsonBuffer s \<and>
   callbacks (step op s) = callbacks s"
  by (cases op) (simp_all add: signalHandler_guarded)

lemma run_guarded:
  "isHandlingCrash s \<noteq> 0 \<Longrightarrow>
   isHandlingCrash (run ops s) \<noteq> 0 \<and>
   crashJsonBuffer (run ops s) = crashJsonBuffer s \<and>
   callbacks (run ops s) = callbacks s"
proof (induction ops arbitrary: s)
  case Nil
  then show ?case by (simp add: run_def)
next
  case (Cons op ops)
  from step_guarded [OF Cons.prems, of op] Cons.IH [of "step op s"]
  show ?case by (simp add: run_def)
qed

lemma run_callbacks_le:
  "length (callbacks (run ops s)) \<le> Suc (length (callbacks s))"
proof (induction ops arbitrary: s)
  case Nil
  then show ?case by (simp add: run_def)
next
  case (Cons op ops)
  show ?case
  proof (cases "\<exists>signal info env. op = Deliver signal info env")
    case True
    then obtain signal info env where op: "op = Deliver signal info env" by blast
    have "isHandlingCrash (step op s) \<noteq> 0"
      by (simp add: op signalHandler_flag)
    then have "callbacks (run ops (step op s)) = callbacks (step op s)"
      using run_guarded by blast
    moreover have "length (callbacks (step op s)) \<le> Suc (length (callbacks s))"
      by (simp add: op signalHandler_callbacks_le)
    ultimately show ?thesis by (simp add: run_def)
  next
    case False
    then have "callbacks (step op s) = callbacks s"
      using step_entry_point by blast
    with Cons.IH [of "step op s"] show ?thesis by (simp add: run_def)
  qed
qed

lemma shutdown_noop: "isInitialized s = 0 \<Longrightarrow> MoonForge_Android_ShutdownCrashHandler s = s"
  by (simp add: MoonForge_Android_ShutdownCrashHandler_def)

lemma shutdown_installed:
  "isInitialized s \<noteq> 0 \<Longrightarrow>
   installed (MoonForge_Android_ShutdownCrashHandler s) sig =
     (if sig \<in> set kSignalsToHandle \<and> \<not> sigaction_rejects s sig then previousHandlers s sig
      else installed s sig)"
  by (simp add: MoonForge_Android_ShutdownCrashHandler_def log_event_def Let_def
      fold_restore_installed)

lemma shutdown_clears:
  "isInitialized s \<noteq> 0 \<Longrightarrow>
   crashCallback (MoonForge_Android_ShutdownCrashHandler s) = None \<and>
   isInitialized (MoonForge_Android_ShutdownCrashHandler s) = 0"
  by (simp add: MoonForge_Android_ShutdownCrashHandler_def log_event_def Let_def)

lemma signalHandler_crashCallback [simp]:
  "crashCallback (signalHandler signal info env s) = crashCallback s"
  by (simp add: handler_unfold split: option.split)

lemma signalHandler_no_callback:
  "crashCallback s = None \<Longrightarrow> callbacks (signalHandler signal info env s) = callbacks s"
  by (cases "isHandlingCrash s = 0")
     (simp_all add: callbacks_def signalHandler_events signalHandler_guarded)

lemma shutdown_crashCallback:
  "crashCallback s = None \<Longrightarrow> crashCallback (MoonForge_Android_ShutdownCrashHandler s) = None"
  by (simp add: MoonForge_Android_ShutdownCrashHandler_def log_event_def Let_def)

lemma entry_point_crashCallback [simp]:
  "crashCallback (MoonForge_Android_SetJavaVM vm s) = crashCallback s"
  "crashCallback (nativeInit s) = crashCallback s"
  "crashCallback (JNI_OnLoad vm s) = crashCallback s"
  by (simp_all add: MoonForge_Android_SetJavaVM_def nativeInit_def JNI_OnLoad_def log_event_def)

lemma step_unregistered:
  "crashCallback s = None \<Longrightarrow> \<not> is_initialize op \<Longrightarrow>
   crashCallback (step op s) = None \<and> callbacks (step op s) = callbacks s"
  by (cases op)
     (simp_all add: signalHandler_no_callback shutdown_crashCallback nativeShutdown_def)

lemma run_unregistered:
  "crashCallback s = None \<Longrightarrow> list_all (\<lambda>op. \<not> is_initialize op) ops \<Longrightarrow>
   crashCallback (run ops s) = None \<and> callbacks (run ops s) = callbacks s"
proof (induction ops arbitrary: s)
  case Nil
  then show ?case by (simp add: run_def)
next
  case (Cons op ops)
  from Cons.prems have "crashCallback (step op s) = None \<and> callbacks (step op s) = callbacks s"
    by (simp add: step_unregistered)
  with Cons.IH [of "step op s"] Cons.prems show ?case by (simp add: run_def)
qed

lemma shutdown_after_initialize_installed:
  assumes "isInitialized s0 = 0"
  shows "installed (MoonForge_Android_ShutdownCrashHandler
                      (MoonForge_Android_InitializeCrashHandler callback s0)) = installed s0"
proof
  fix sig
  let ?s = "MoonForge_Android_InitializeCrashHandler callback s0"
  have init: "isInitialized ?s \<noteq> 0" by (rule initialize_sets_initialized)
  show "installed (MoonForge_Android_ShutdownCrashHandler ?s) sig = installed s0 sig"
    using assms by (simp add: shutdown_installed [OF init] initialize_previous initialize_installed)
qed

lemma signalHandler_SIGSTKSZ [simp]:
  "SIGSTKSZ (signalHandler signal info env s) = SIGSTKSZ s"
  by (simp add: handler_unfold split: option.split)

lemma step_SIGSTKSZ: "SIGSTKSZ (step op s) = SIGSTKSZ s"
  by (cases op)
     (simp_all add: MoonForge_Android_SetJavaVM_def nativeInit_def nativeShutdown_def
        JNI_OnLoad_def log_event_def)

lemma run_SIGSTKSZ: "SIGSTKSZ (run ops s) = SIGSTKSZ s"
proof (induction ops arbitrary: s)
  case Nil
  show ?case by (simp add: run_def)
next
  case (Cons op ops)
  from Cons [of "step op s"] show ?case by (simp add: run_def step_SIGSTKSZ)
qed

lemma initialize_altstack_registered:
  "isInitialized s = 0 \<Longrightarrow> malloc_results s = p # rest \<Longrightarrow> p \<noteq> 0 \<Longrightarrow>
   MINSIGSTKSZ s \<le> SIGSTKSZ s \<Longrightarrow>
   altstack (MoonForge_Android_InitializeCrashHandler callback s) =
     Some \<lparr>ss_sp = p, ss_flags = 0, ss_size = SIGSTKSZ s\<rparr> \<and>
   malloc_results (MoonForge_Android_InitializeCrashHandler callback s) = rest"
  by (simp add: initialize_unfold)

lemma initialize_altstack_untouched:
  "isInitialized s = 0 \<Longrightarrow> malloc_results s = [] \<or> hd (malloc_results s) = 0 \<Longrightarrow>
   altstack (MoonForge_Android_InitializeCrashHandler callback s) = altstack s"
  by (cases "malloc_results s") (auto simp: initialize_unfold)

section \<open>Claims about the engine's state machine\<close>

text \<open>
  C1. The handler sets the reentrancy flag whenever it runs. Once the flag is set, no
  sequence of engine operations and signal deliveries clears it, rebuilds the report
  buffer or adds a callback invocation, and a further delivery leaves the process as it
  is: the handler returns at its first statement. Hence any sequence of operations, from
  any state, adds at most one callback invocation.
\<close>

theorem reentrancy_guard_one_shot:
  "isHandlingCrash (signalHandler signal info env s) \<noteq> 0 \<and>
   (isHandlingCrash s \<noteq> 0 \<longrightarrow>
      isHandlingCrash (run ops s) \<noteq> 0 \<and>
      crashJsonBuffer (run ops s) = crashJsonBuffer s \<and>
      callbacks (run ops s) = callbacks s \<and>
      signalHandler signal info env (run ops s) = run ops s) \<and>
   length (callbacks (run ops s)) \<le> Suc (length (callbacks s))"
  using run_guarded [of s ops] run_callbacks_le [of ops s]
  by (simp add: signalHandler_flag signalHandler_guarded)

theorem reentrancy_guard_one_shot_witness:
  "isHandlingCrash crashed_process \<noteq> 0 \<and>
   isHandlingCrash (run later_ops crashed_process) \<noteq> 0 \<and>
   crashJsonBuffer (run later_ops crashed_process) = crashJsonBuffer crashed_process \<and>
   callbacks (run later_ops crashed_process) = callbacks crashed_process \<and>
   signalHandler SIGPIPE None demo_env (run later_ops crashed_process) =
     run later_ops crashed_process"
proof -
  have h: "isHandlingCrash crashed_process \<noteq> 0"
    by (simp add: crashed_process_def signalHandler_flag)
  from h reentrancy_guard_one_shot [of SIGPIPE None demo_env crashed_process later_ops]
  show ?thesis by simp
qed

text \<open>
  C4. A delivery that passes the guard ends with exactly these effects, in this order:
  the log line, the callback invocation (when a callback is registered), the
  \<^verbatim>\<open>sigaction\<close> call that installs the table entry saved for this signal number,
  and \<^verbatim>\<open>raise\<close> of the same number. Afterwards that entry is the installed
  disposition; when the handler was installed by the preceding initialize, it is the
  disposition that was in place before.
\<close>

theorem handler_restores_saved_disposition_and_reraises:
  "isHandlingCrash s = 0 \<Longrightarrow> \<not> sigaction_rejects s signal \<Longrightarrow>
   installed (signalHandler signal info env s) signal = previousHandlers s signal \<and>
   events (signalHandler signal info env s) =
     events s @
     [LOGE (''Caught signal '' @ fmt_d signal @ '' ('' @ signalName signal @ '')'')] @
     (case crashCallback s of
        Some cb \<Rightarrow>
          [CallbackInvoked cb (c_str 32768 (crashJsonBuffer (signalHandler signal info env s)) 0)]
      | None \<Rightarrow> []) @
     [SigactionCall signal (previousHandlers s signal), RaiseCall signal] \<and>
   (s = MoonForge_Android_InitializeCrashHandler callback s0 \<and> isInitialized s0 = 0 \<and>
    signal \<in> set kSignalsToHandle \<longrightarrow>
    installed (signalHandler signal info env s) signal = installed s0 signal)"
proof (intro conjI impI)
  assume guard: "isHandlingCrash s = 0" and ok: "\<not> sigaction_rejects s signal"
  show restored: "installed (signalHandler signal info env s) signal = previousHandlers s signal"
    using guard ok by (simp add: signalHandler_installed)
  show "events (signalHandler signal info env s) =
     events s @
     [LOGE (''Caught signal '' @ fmt_d signal @ '' ('' @ signalName signal @ '')'')] @
     (case crashCallback s of
        Some cb \<Rightarrow>
          [CallbackInvoked cb (c_str 32768 (crashJsonBuffer (signalHandler signal info env s)) 0)]
      | None \<Rightarrow> []) @
     [SigactionCall signal (previousHandlers s signal), RaiseCall signal]"
    using guard by (rule signalHandler_events)
  assume init: "s = MoonForge_Android_InitializeCrashHandler callback s0 \<and>
    isInitialized s0 = 0 \<and> signal \<in> set kSignalsToHandle"
  with ok have "previousHandlers s signal = installed s0 signal"
    by (simp add: initialize_previous)
  with restored show "installed (signalHandler signal info env s) signal = installed s0 signal"
    by simp
qed

theorem handler_restores_saved_disposition_and_reraises_witness:
  "isHandlingCrash (MoonForge_Android_InitializeCrashHandler (Some 0x5000) demo_process) = 0 \<and>
   \<not> sigaction_rejects (MoonForge_Android_InitializeCrashHandler (Some 0x5000) demo_process) SIGSEGV \<and>
   isInitialized demo_process = 0 \<and> SIGSEGV \<in> set kSignalsToHandle \<and>
   installed (signalHandler SIGSEGV None demo_env
                (MoonForge_Android_InitializeCrashHandler (Some 0x5000) demo_process)) SIGSEGV =
     \<lparr>sa_handler = ForeignHandler 0x7100, sa_flags = SA_SIGINFO, sa_mask = {}\<rparr>"
proof -
  let ?s = "MoonForge_Android_InitializeCrashHandler (Some 0x5000) demo_process"
  have h1: "isHandlingCrash ?s = 0"
    by (simp add: demo_defs)
  have h2: "\<not> sigaction_rejects ?s SIGSEGV"
    by (simp add: demo_defs sig_defs)
  have h3: "isInitialized demo_process = 0"
    by (simp add: demo_defs)
  have h4: "SIGSEGV \<in> set kSignalsToHandle"
    by (simp add: sig_defs)
  have h5: "installed demo_process SIGSEGV =
      \<lparr>sa_handler = ForeignHandler 0x7100, sa_flags = SA_SIGINFO, sa_mask = {}\<rparr>"
    by (simp add: demo_defs)
  from handler_restores_saved_disposition_and_reraises
         [OF h1 h2, of None demo_env "Some 0x5000" demo_process] h3 h4
  have "installed (signalHandler SIGSEGV None demo_env ?s) SIGSEGV = installed demo_process SIGSEGV"
    by blast
  with h1 h2 h3 h4 h5 show ?thesis by simp
qed

text \<open>
  C5. Initialize on an initialized engine changes nothing but the log, which gains the
  line saying so: no \<^verbatim>\<open>sigaction\<close> call, no allocation, the saved dispositions
  and the registered callback as they were.
\<close>

theorem initialize_twice_is_noop:
  "isInitialized s \<noteq> 0 \<Longrightarrow>
   MoonForge_Android_InitializeCrashHandler callback s =
     s\<lparr>events := events s @ [LOGD ''Crash handler already initialized'']\<rparr>"
  by (rule initialize_noop)

theorem initialize_twice_is_noop_witness:
  "isInitialized (MoonForge_Android_InitializeCrashHandler (Some 0x5000) demo_process) \<noteq> 0 \<and>
   MoonForge_Android_InitializeCrashHandler (Some 0x6000)
     (MoonForge_Android_InitializeCrashHandler (Some 0x5000) demo_process) =
   (MoonForge_Android_InitializeCrashHandler (Some 0x5000) demo_process)
     \<lparr>events := events (MoonForge_Android_InitializeCrashHandler (Some 0x5000) demo_process) @
                 [LOGD ''Crash handler already initialized'']\<rparr>"
proof -
  have h: "isInitialized (MoonForge_Android_InitializeCrashHandler (Some 0x5000) demo_process) \<noteq> 0"
    by (simp add: initialize_unfold demo_defs)
  from h initialize_twice_is_noop [OF h, of "Some 0x6000"] show ?thesis by simp
qed

text \<open>
  C6. On an initialized engine shutdown calls \<^verbatim>\<open>sigaction\<close> with the saved entry for
  every signal of the handled set, in the set's order; wherever the platform accepts the
  call that entry is the installed disposition afterwards. It clears the callback and the
  initialized flag, and no later sequence of deliveries and calls other than initialize
  adds a callback invocation. On an engine that is not initialized shutdown changes
  nothing; and initialize followed by shutdown leaves every disposition as it found it.
\<close>

theorem shutdown_restores_and_clears:
  "(isInitialized s \<noteq> 0 \<longrightarrow>
      (\<forall>sig \<in> set kSignalsToHandle.
         \<not> sigaction_rejects s sig \<longrightarrow>
         installed (MoonForge_Android_ShutdownCrashHandler s) sig = previousHandlers s sig) \<and>
      events (MoonForge_Android_ShutdownCrashHandler s) =
        events s @ map (\<lambda>sig. SigactionCall sig (previousHandlers s sig)) kSignalsToHandle @
        [LOGD ''Crash handler shutdown''] \<and>
      crashCallback (MoonForge_Android_ShutdownCrashHandler s) = None \<and>
      isInitialized (MoonForge_Android_ShutdownCrashHandler s) = 0 \<and>
      (list_all (\<lambda>op. \<not> is_initialize op) ops \<longrightarrow>
         callbacks (run ops (MoonForge_Android_ShutdownCrashHandler s)) = callbacks s)) \<and>
   (isInitialized s = 0 \<longrightarrow>
      MoonForge_Android_ShutdownCrashHandler s = s \<and>
      installed (MoonForge_Android_ShutdownCrashHandler
                   (MoonForge_Android_InitializeCrashHandler callback s)) = installed s)"
proof (intro conjI impI ballI)
  assume i: "isInitialized s \<noteq> 0"
  show "events (MoonForge_Android_ShutdownCrashHandler s) =
        events s @ map (\<lambda>sig. SigactionCall sig (previousHandlers s sig)) kSignalsToHandle @
        [LOGD ''Crash handler shutdown'']"
    using i by (rule shutdown_events)
  show "crashCallback (MoonForge_Android_ShutdownCrashHandler s) = None"
    using i by (simp add: shutdown_clears)
  show "isInitialized (MoonForge_Android_ShutdownCrashHandler s) = 0"
    using i by (simp add: shutdown_clears)
  {
    fix sig
    assume "sig \<in> set kSignalsToHandle" "\<not> sigaction_rejects s sig"
    then show "installed (MoonForge_Android_ShutdownCrashHandler s) sig = previousHandlers s sig"
      using i by (simp add: shutdown_installed)
  }
  {
    assume "list_all (\<lambda>op. \<not> is_initialize op) ops"
    then show "callbacks (run ops (MoonForge_Android_ShutdownCrashHandler s)) = callbacks s"
      using i run_unregistered [of "MoonForge_Android_ShutdownCrashHandler s" ops]
      by (simp add: shutdown_clears)
  }
next
  assume z: "isInitialized s = 0"
  then show "MoonForge_Android_ShutdownCrashHandler s = s"
    by (rule shutdown_noop)
  from z show "installed (MoonForge_Android_ShutdownCrashHandler
                   (MoonForge_Android_InitializeCrashHandler callback s)) = installed s"
    by (rule shutdown_after_initialize_installed)
qed

theorem shutdown_restores_and_clears_witness:
  "isInitialized (MoonForge_Android_InitializeCrashHandler (Some 0x5000) demo_process) \<noteq> 0 \<and>
   SIGSEGV \<in> set kSignalsToHandle \<and>
   \<not> sigaction_rejects (MoonForge_Android_InitializeCrashHandler (Some 0x5000) demo_process) SIGSEGV \<and>
   installed (MoonForge_Android_ShutdownCrashHandler
                (MoonForge_Android_InitializeCrashHandler (Some 0x5000) demo_process)) SIGSEGV =
     \<lparr>sa_handler = ForeignHandler 0x7100, sa_flags = SA_SIGINFO, sa_mask = {}\<rparr> \<and>
   crashCallback (MoonForge_Android_ShutdownCrashHandler
                (MoonForge_Android_InitializeCrashHandler (Some 0x5000) demo_process)) = None \<and>
   isInitialized (MoonForge_Android_ShutdownCrashHandler
                (MoonForge_Android_InitializeCrashHandler (Some 0x5000) demo_process)) = 0 \<and>
   list_all (\<lambda>op. \<not> is_initialize op) [Deliver SIGSEGV None demo_env] \<and>
   callbacks (run [Deliver SIGSEGV None demo_env]
                (MoonForge_Android_ShutdownCrashHandler
                   (MoonForge_Android_InitializeCrashHandler (Some 0x5000) demo_process))) = [] \<and>
   isInitialized demo_process = 0 \<and>
   MoonForge_Android_ShutdownCrashHandler demo_process = demo_process"
proof -
  let ?s = "MoonForge_Android_InitializeCrashHandler (Some 0x5000) demo_process"
  have h0: "isInitialized demo_process = 0"
    by (simp add: demo_defs)
  have h1: "isInitialized ?s \<noteq> 0"
    by (simp add: initialize_unfold demo_defs)
  have h2: "SIGSEGV \<in> set kSignalsToHandle"
    by (simp add: sig_defs)
  have h3: "\<not> sigaction_rejects ?s SIGSEGV"
    by (simp add: demo_defs sig_defs)
  have h4: "list_all (\<lambda>op. \<not> is_initialize op) [Deliver SIGSEGV None demo_env]"
    by simp
  have h5: "previousHandlers ?s SIGSEGV =
      \<lparr>sa_handler = ForeignHandler 0x7100, sa_flags = SA_SIGINFO, sa_mask = {}\<rparr>"
    using h0 h2 by (simp add: initialize_previous) (simp add: demo_defs sig_defs)
  have "callbacks demo_process = []"
    by (simp add: callbacks_def demo_defs)
  then have h6: "callbacks ?s = []"
    by simp
  from shutdown_restores_and_clears [of ?s "[Deliver SIGSEGV None demo_env]"] h1 h2 h3 h4
  have a: "installed (MoonForge_Android_ShutdownCrashHandler ?s) SIGSEGV = previousHandlers ?s SIGSEGV \<and>
      crashCallback (MoonForge_Android_ShutdownCrashHandler ?s) = None \<and>
      isInitialized (MoonForge_Android_ShutdownCrashHandler ?s) = 0 \<and>
      callbacks (run [Deliver SIGSEGV None demo_env] (MoonForge_Android_ShutdownCrashHandler ?s)) =
        callbacks ?s"
    by blast
  from shutdown_restores_and_clears [of demo_process] h0
  have b: "MoonForge_Android_ShutdownCrashHandler demo_process = demo_process"
    by blast
  from a b h0 h1 h2 h3 h4 h5 h6 show ?thesis by simp
qed

text \<open>
  C8. In an initialize that installs, a signal the platform rejects gets its error line
  and keeps its disposition, every other signal of the set gets this engine's handler
  with the previous disposition saved, and the engine reports itself initialized with
  the callback registered, whatever was rejected.
\<close>

theorem initialize_survives_install_failure:
  "isInitialized s = 0 \<Longrightarrow>
   (\<forall>sig \<in> set kSignalsToHandle.
      if sigaction_rejects s sig
      then LOGE (''Failed to install handler for signal '' @ fmt_d sig)
             \<in> set (events (MoonForge_Android_InitializeCrashHandler callback s)) \<and>
           installed (MoonForge_Android_InitializeCrashHandler callback s) sig = installed s sig
      else installed (MoonForge_Android_InitializeCrashHandler callback s) sig =
             \<lparr>sa_handler = SignalHandlerFn, sa_flags = SA_SIGINFO OR SA_ONSTACK, sa_mask = {}\<rparr> \<and>
           previousHandlers (MoonForge_Android_InitializeCrashHandler callback s) sig =
             installed s sig) \<and>
   MoonForge_Android_IsInitialized (MoonForge_Android_InitializeCrashHandler callback s) = 1 \<and>
   crashCallback (MoonForge_Android_InitializeCrashHandler callback s) = callback"
proof (intro conjI ballI)
  assume z: "isInitialized s = 0"
  show "MoonForge_Android_IsInitialized (MoonForge_Android_InitializeCrashHandler callback s) = 1"
    using z by (simp add: MoonForge_Android_IsInitialized_def initialize_unfold
        split: list.split prod.split)
  show "crashCallback (MoonForge_Android_InitializeCrashHandler callback s) = callback"
    using z by (simp add: initialize_unfold split: list.split prod.split)
  fix sig
  assume m: "sig \<in> set kSignalsToHandle"
  show "if sigaction_rejects s sig
      then LOGE (''Failed to install handler for signal '' @ fmt_d sig)
             \<in> set (events (MoonForge_Android_InitializeCrashHandler callback s)) \<and>
           installed (MoonForge_Android_InitializeCrashHandler callback s) sig = installed s sig
      else installed (MoonForge_Android_InitializeCrashHandler callback s) sig =
             \<lparr>sa_handler = SignalHandlerFn, sa_flags = SA_SIGINFO OR SA_ONSTACK, sa_mask = {}\<rparr> \<and>
           previousHandlers (MoonForge_Android_InitializeCrashHandler callback s) sig =
             installed s sig"
  proof (cases "sigaction_rejects s sig")
    case True
    then have "LOGE (''Failed to install handler for signal '' @ fmt_d sig)
        \<in> set (install_events (sigaction_rejects s) sig)"
      by (simp add: install_events_def)
    with m have "LOGE (''Failed to install handler for signal '' @ fmt_d sig)
        \<in> set (events (MoonForge_Android_InitializeCrashHandler callback s))"
      using z by (auto simp: initialize_events)
    with True z show ?thesis by (simp add: initialize_installed)
  next
    case False
    with m z show ?thesis by (simp add: initialize_installed initialize_previous)
  qed
qed

theorem initialize_survives_install_failure_witness:
  "isInitialized demo_process = 0 \<and>
   sigaction_rejects demo_process SIGBUS \<and>
   LOGE ''Failed to install handler for signal 7''
     \<in> set (events (MoonForge_Android_InitializeCrashHandler (Some 0x5000) demo_process)) \<and>
   installed (MoonForge_Android_InitializeCrashHandler (Some 0x5000) demo_process) SIGBUS =
     zero_sigaction \<and>
   \<not> sigaction_rejects demo_process SIGFPE \<and>
   installed (MoonForge_Android_InitializeCrashHandler (Some 0x5000) demo_process) SIGFPE =
     \<lparr>sa_handler = SignalHandlerFn, sa_flags = SA_SIGINFO OR SA_ONSTACK, sa_mask = {}\<rparr> \<and>
   \<not> sigaction_rejects demo_process SIGSEGV \<and>
   previousHandlers (MoonForge_Android_InitializeCrashHandler (Some 0x5000) demo_process) SIGSEGV =
     \<lparr>sa_handler = ForeignHandler 0x7100, sa_flags = SA_SIGINFO, sa_mask = {}\<rparr> \<and>
   MoonForge_Android_IsInitialized
     (MoonForge_Android_InitializeCrashHandler (Some 0x5000) demo_process) = 1"
proof -
  let ?s = "MoonForge_Android_InitializeCrashHandler (Some 0x5000) demo_process"
  have h0: "isInitialized demo_process = 0"
    by (simp add: demo_defs)
  have r: "sigaction_rejects demo_process SIGBUS" "\<not> sigaction_rejects demo_process SIGFPE"
      "\<not> sigaction_rejects demo_process SIGSEGV"
    by (simp_all add: demo_defs sig_defs)
  have m: "SIGBUS \<in> set kSignalsToHandle" "SIGFPE \<in> set kSignalsToHandle"
      "SIGSEGV \<in> set kSignalsToHandle"
    by (simp_all add: sig_defs)
  have d: "installed demo_process SIGBUS = zero_sigaction"
      "installed demo_process SIGSEGV =
         \<lparr>sa_handler = ForeignHandler 0x7100, sa_flags = SA_SIGINFO, sa_mask = {}\<rparr>"
    by (simp_all add: demo_defs sig_defs)
  have f: "fmt_d SIGBUS = ''7''"
    by (simp add: fmt_d_def fmt_lu.simps digit_char_def SIGBUS_def)
  note t = initialize_survives_install_failure [OF h0, of "Some 0x5000"]
  from t m(1) r(1) have a: "LOGE (''Failed to install handler for signal '' @ fmt_d SIGBUS)
        \<in> set (events ?s) \<and> installed ?s SIGBUS = installed demo_process SIGBUS"
    by (metis (full_types))
  from t m(2) r(2) have b: "installed ?s SIGFPE =
        \<lparr>sa_handler = SignalHandlerFn, sa_flags = SA_SIGINFO OR SA_ONSTACK, sa_mask = {}\<rparr>"
    by (metis (full_types))
  from t m(3) r(3) have c: "previousHandlers ?s SIGSEGV = installed demo_process SIGSEGV"
    by (metis (full_types))
  from t have e: "MoonForge_Android_IsInitialized ?s = 1"
    by blast
  from a b c e h0 r d f show ?thesis by simp
qed

text \<open>
  C9, as the claim states it, fails twice. Where \<^verbatim>\<open>malloc\<close> returns NULL,
  initialize completes and no alternate stack is registered. And where the allocation
  succeeds, the region has the platform's \<open>SIGSTKSZ\<close> bytes: with \<open>SIGSTKSZ\<close> 16384
  that is no more than the handler's one local array \<^verbatim>\<open>stackTraceJson\<close>, so
  the region leaves the handler no margin at all.
\<close>

theorem initialize_without_memory_counterexample:
  "isInitialized oom_process = 0 \<and>
   isInitialized (MoonForge_Android_InitializeCrashHandler (Some 0x5000) oom_process) = 1 \<and>
   altstack (MoonForge_Android_InitializeCrashHandler (Some 0x5000) oom_process) = None \<and>
   isInitialized demo_process = 0 \<and>
   altstack (MoonForge_Android_InitializeCrashHandler (Some 0x5000) demo_process) =
     Some \<lparr>ss_sp = 0x7f0000, ss_flags = 0, ss_size = 16384\<rparr> \<and>
   ss_size (the (altstack (MoonForge_Android_InitializeCrashHandler (Some 0x5000) demo_process)))
     \<le> stackTraceJson_size"
proof -
  have o: "isInitialized oom_process = 0 \<and>
      isInitialized (MoonForge_Android_InitializeCrashHandler (Some 0x5000) oom_process) = 1 \<and>
      altstack (MoonForge_Android_InitializeCrashHandler (Some 0x5000) oom_process) = None"
    by (simp add: initialize_unfold oom_process_def fresh_process_def)
  have d: "isInitialized demo_process = 0" "malloc_results demo_process = [0x7f0000]"
      "MINSIGSTKSZ demo_process \<le> SIGSTKSZ demo_process" "SIGSTKSZ demo_process = 16384"
    by (simp_all add: demo_defs)
  have "(0x7f0000 :: addr) \<noteq> 0" by simp
  from initialize_altstack_registered [OF d(1) d(2) this d(3), of "Some 0x5000"] d(4)
  have a: "altstack (MoonForge_Android_InitializeCrashHandler (Some 0x5000) demo_process) =
     Some \<lparr>ss_sp = 0x7f0000, ss_flags = 0, ss_size = 16384\<rparr>"
    by simp
  from o d(1) a show ?thesis by (simp add: stackTraceJson_size_def)
qed

text \<open>
  C9, amended. An initialize that installs makes one \<^verbatim>\<open>malloc\<close> call, for a
  region of fixed size: the size asked for is a constant of the platform that no
  operation of the engine changes. When the call returns a region and the platform
  accepts it, the region is registered as the alternate signal stack; it is passed to
  \<^verbatim>\<open>sigaltstack\<close> and to no other call, and the platform runs the handler of
  every signal the engine installed on it. When the call returns NULL,
  \<^verbatim>\<open>sigaltstack\<close> is not called and the alternate stack is left as it was. Either
  way the engine ends initialized. How much room the region leaves the handler is
  neither promised nor denied here.
\<close>

theorem initialize_alternate_stack:
  "isInitialized s = 0 \<Longrightarrow>
   (malloc_results s = p # rest \<and> p \<noteq> 0 \<longrightarrow>
      events (MoonForge_Android_InitializeCrashHandler callback s) =
        events s @ concat (map (install_events (sigaction_rejects s)) kSignalsToHandle) @
        [MallocCall (SIGSTKSZ s),
         SigaltstackCall \<lparr>ss_sp = p, ss_flags = 0, ss_size = SIGSTKSZ s\<rparr>,
         LOGD ''Crash handler initialized''] \<and>
      malloc_results (MoonForge_Android_InitializeCrashHandler callback s) = rest \<and>
      (MINSIGSTKSZ s \<le> SIGSTKSZ s \<longrightarrow>
         altstack (MoonForge_Android_InitializeCrashHandler callback s) =
           Some \<lparr>ss_sp = p, ss_flags = 0, ss_size = SIGSTKSZ s\<rparr> \<and>
         (\<forall>sig \<in> set kSignalsToHandle.
            \<not> sigaction_rejects s sig \<longrightarrow>
            sa_handler (installed (MoonForge_Android_InitializeCrashHandler callback s) sig) =
              SignalHandlerFn \<and>
            handler_stack (MoonForge_Android_InitializeCrashHandler callback s) sig =
              Some \<lparr>ss_sp = p, ss_flags = 0, ss_size = SIGSTKSZ s\<rparr>))) \<and>
   (malloc_results s = [] \<or> hd (malloc_results s) = 0 \<longrightarrow>
      events (MoonForge_Android_InitializeCrashHandler callback s) =
        events s @ concat (map (install_events (sigaction_rejects s)) kSignalsToHandle) @
        [MallocCall (SIGSTKSZ s), LOGD ''Crash handler initialized''] \<and>
      altstack (MoonForge_Android_InitializeCrashHandler callback s) = altstack s) \<and>
   isInitialized (MoonForge_Android_InitializeCrashHandler callback s) = 1 \<and>
   SIGSTKSZ (run ops s) = SIGSTKSZ s"
proof (intro conjI impI ballI)
  assume z: "isInitialized s = 0"
  show "isInitialized (MoonForge_Android_InitializeCrashHandler callback s) = 1"
    using z by (simp add: initialize_unfold split: list.split prod.split)
  show "SIGSTKSZ (run ops s) = SIGSTKSZ s"
    by (rule run_SIGSTKSZ)
  {
    assume m: "malloc_results s = p # rest \<and> p \<noteq> 0"
    show "events (MoonForge_Android_InitializeCrashHandler callback s) =
        events s @ concat (map (install_events (sigaction_rejects s)) kSignalsToHandle) @
        [MallocCall (SIGSTKSZ s),
         SigaltstackCall \<lparr>ss_sp = p, ss_flags = 0, ss_size = SIGSTKSZ s\<rparr>,
         LOGD ''Crash handler initialized'']"
      using z m by (simp add: initialize_events)
    show "malloc_results (MoonForge_Android_InitializeCrashHandler callback s) = rest"
      using z m by (simp add: initialize_unfold)
    assume k: "MINSIGSTKSZ s \<le> SIGSTKSZ s"
    show a: "altstack (MoonForge_Android_InitializeCrashHandler callback s) =
           Some \<lparr>ss_sp = p, ss_flags = 0, ss_size = SIGSTKSZ s\<rparr>"
      using z m k by (simp add: initialize_altstack_registered)
    fix sig
    assume g: "sig \<in> set kSignalsToHandle" "\<not> sigaction_rejects s sig"
    have i: "installed (MoonForge_Android_InitializeCrashHandler callback s) sig =
        \<lparr>sa_handler = SignalHandlerFn, sa_flags = SA_SIGINFO OR SA_ONSTACK, sa_mask = {}\<rparr>"
      using z g by (simp add: initialize_installed)
    show "sa_handler (installed (MoonForge_Android_InitializeCrashHandler callback s) sig) =
              SignalHandlerFn"
      by (simp add: i)
    have "(SA_SIGINFO OR SA_ONSTACK) AND SA_ONSTACK \<noteq> 0"
      by (simp add: SA_SIGINFO_def SA_ONSTACK_def)
    then show "handler_stack (MoonForge_Android_InitializeCrashHandler callback s) sig =
              Some \<lparr>ss_sp = p, ss_flags = 0, ss_size = SIGSTKSZ s\<rparr>"
      by (simp add: handler_stack_def i a)
  }
  {
    assume n: "malloc_results s = [] \<or> hd (malloc_results s) = 0"
    show "events (MoonForge_Android_InitializeCrashHandler callback s) =
        events s @ concat (map (install_events (sigaction_rejects s)) kSignalsToHandle) @
        [MallocCall (SIGSTKSZ s), LOGD ''Crash handler initialized'']"
      using z n by (cases "malloc_results s") (auto simp: initialize_events)
    show "altstack (MoonForge_Android_InitializeCrashHandler callback s) = altstack s"
      using z n by (rule initialize_altstack_untouched)
  }
qed

theorem initialize_alternate_stack_witness:
  "isInitialized demo_process = 0 \<and>
   malloc_results demo_process = [0x7f0000] \<and>
   MINSIGSTKSZ demo_process \<le> SIGSTKSZ demo_process \<and>
   altstack (MoonForge_Android_InitializeCrashHandler (Some 0x5000) demo_process) =
     Some \<lparr>ss_sp = 0x7f0000, ss_flags = 0, ss_size = 16384\<rparr> \<and>
   malloc_results (MoonForge_Android_InitializeCrashHandler (Some 0x5000) demo_process) = [] \<and>
   SIGSEGV \<in> set kSignalsToHandle \<and> \<not> sigaction_rejects demo_process SIGSEGV \<and>
   handler_stack (MoonForge_Android_InitializeCrashHandler (Some 0x5000) demo_process) SIGSEGV =
     Some \<lparr>ss_sp = 0x7f0000, ss_flags = 0, ss_size = 16384\<rparr> \<and>
   isInitialized oom_process = 0 \<and>
   malloc_results oom_process = [] \<and>
   events (MoonForge_Android_InitializeCrashHandler (Some 0x5000) oom_process) =
     concat (map (install_events (\<lambda>sig. False)) kSignalsToHandle) @
     [MallocCall 16384, LOGD ''Crash handler initialized''] \<and>
   altstack (MoonForge_Android_InitializeCrashHandler (Some 0x5000) oom_process) = None"
proof -
  have h0: "isInitialized demo_process = 0" "malloc_results demo_process = [0x7f0000]"
      "SIGSTKSZ demo_process = 16384" "\<not> sigaction_rejects demo_process SIGSEGV"
      "MINSIGSTKSZ demo_process \<le> SIGSTKSZ demo_process"
    by (simp_all add: demo_defs sig_defs)
  have h1: "isInitialized oom_process = 0" "malloc_results oom_process = []"
      "altstack oom_process = None" "events oom_process = []"
      "sigaction_rejects oom_process = (\<lambda>sig. False)" "SIGSTKSZ oom_process = 16384"
    by (simp_all add: oom_process_def fresh_process_def)
  have m: "SIGSEGV \<in> set kSignalsToHandle"
    by (simp add: sig_defs)
  have nz: "(0x7f0000 :: addr) \<noteq> 0"
    by simp
  note a = initialize_alternate_stack [OF h0(1), of "0x7f0000" "[]" "Some 0x5000"]
  note b = initialize_alternate_stack [OF h1(1), of 0 "[]" "Some 0x5000"]
  from a h0 nz have a1:
    "altstack (MoonForge_Android_InitializeCrashHandler (Some 0x5000) demo_process) =
       Some \<lparr>ss_sp = 0x7f0000, ss_flags = 0, ss_size = 16384\<rparr> \<and>
     malloc_results (MoonForge_Android_InitializeCrashHandler (Some 0x5000) demo_process) = []"
    by simp
  from a h0 nz m have a2:
    "handler_stack (MoonForge_Android_InitializeCrashHandler (Some 0x5000) demo_process) SIGSEGV =
       Some \<lparr>ss_sp = 0x7f0000, ss_flags = 0, ss_size = 16384\<rparr>"
    by simp
  from b h1 have b1:
    "events (MoonForge_Android_InitializeCrashHandler (Some 0x5000) oom_process) =
       concat (map (install_events (\<lambda>sig. False)) kSignalsToHandle) @
       [MallocCall 16384, LOGD ''Crash handler initialized''] \<and>
     altstack (MoonForge_Android_InitializeCrashHandler (Some 0x5000) oom_process) = None"
    by simp
  from a1 a2 b1 h0 h1 m show ?thesis by simp
qed

text \<open>
  C10. The handled set is the seven listed signal numbers, all different. After an
  installing initialize on a process where the handler was bound to nothing, the handler
  is bound to exactly the signals of the set that the platform accepted. SIGPIPE is one
  of them, and a SIGPIPE delivery sets the flag like any other, so that every later
  delivery returns at once.
\<close>

theorem handled_signals_are_seven:
  "set kSignalsToHandle = {SIGABRT, SIGBUS, SIGFPE, SIGILL, SIGSEGV, SIGTRAP, SIGPIPE} \<and>
   distinct kSignalsToHandle \<and> kNumSignals = 7 \<and>
   (isInitialized s = 0 \<and> (\<forall>sig. sa_handler (installed s sig) \<noteq> SignalHandlerFn) \<longrightarrow>
      {sig. sa_handler (installed (MoonForge_Android_InitializeCrashHandler callback s) sig) =
              SignalHandlerFn} =
      {sig. sig \<in> {SIGABRT, SIGBUS, SIGFPE, SIGILL, SIGSEGV, SIGTRAP, SIGPIPE} \<and>
            \<not> sigaction_rejects s sig}) \<and>
   isHandlingCrash (signalHandler SIGPIPE info env s) \<noteq> 0 \<and>
   signalHandler signal info' env' (signalHandler SIGPIPE info env s) =
     signalHandler SIGPIPE info env s"
proof (intro conjI impI)
  show k: "set kSignalsToHandle = {SIGABRT, SIGBUS, SIGFPE, SIGILL, SIGSEGV, SIGTRAP, SIGPIPE}"
    by (simp add: kSignalsToHandle_def)
  show "distinct kSignalsToHandle"
    by (rule kSignals_distinct)
  show "kNumSignals = 7"
    by (simp add: kNumSignals_def kSignalsToHandle_def)
  show f: "isHandlingCrash (signalHandler SIGPIPE info env s) \<noteq> 0"
    by (rule signalHandler_flag)
  show "signalHandler signal info' env' (signalHandler SIGPIPE info env s) =
     signalHandler SIGPIPE info env s"
    using f by (rule signalHandler_guarded)
  assume a: "isInitialized s = 0 \<and> (\<forall>sig. sa_handler (installed s sig) \<noteq> SignalHandlerFn)"
  then show "{sig. sa_handler (installed (MoonForge_Android_InitializeCrashHandler callback s) sig) =
              SignalHandlerFn} =
      {sig. sig \<in> {SIGABRT, SIGBUS, SIGFPE, SIGILL, SIGSEGV, SIGTRAP, SIGPIPE} \<and>
            \<not> sigaction_rejects s sig}"
    unfolding k [symmetric] by (auto simp: initialize_installed)
qed

theorem handled_signals_are_seven_witness:
  "isInitialized demo_process = 0 \<and>
   (\<forall>sig. sa_handler (installed demo_process sig) \<noteq> SignalHandlerFn) \<and>
   {sig. sa_handler (installed (MoonForge_Android_InitializeCrashHandler (Some 0x5000) demo_process) sig) =
           SignalHandlerFn} =
     {SIGABRT, SIGFPE, SIGILL, SIGSEGV, SIGTRAP, SIGPIPE}"
proof -
  have h0: "isInitialized demo_process = 0"
    by (simp add: demo_defs)
  have h1: "\<forall>sig. sa_handler (installed demo_process sig) \<noteq> SignalHandlerFn"
    by (simp add: demo_defs)
  have h2: "{sig. sig \<in> {SIGABRT, SIGBUS, SIGFPE, SIGILL, SIGSEGV, SIGTRAP, SIGPIPE} \<and>
            \<not> sigaction_rejects demo_process sig} = {SIGABRT, SIGFPE, SIGILL, SIGSEGV, SIGTRAP, SIGPIPE}"
    by (auto simp: demo_defs sig_defs)
  from handled_signals_are_seven [of demo_process "Some 0x5000"] h0 h1 h2
  show ?thesis by simp
qed

section \<open>The stack unwinder\<close>

lemma store_bytes_Nil [simp]: "store_bytes m dst [] = m"
  by (rule ext) (auto simp: store_bytes_def)

lemma Unwind_Backtrace_result:
  "current st \<le> end_p st \<Longrightarrow>
   Unwind_Backtrace chain (st, frames) =
     (st\<lparr>current := min (end_p st) (current st + length (filter (\<lambda>pc. pc \<noteq> 0) chain))\<rparr>,
      store_bytes frames (current st) (take (end_p st - current st) (filter (\<lambda>pc. pc \<noteq> 0) chain)))"
proof (induction chain arbitrary: st frames)
  case Nil
  then show ?case by (simp add: min_def)
next
  case (Cons pc outer)
  show ?case
  proof (cases "pc = 0")
    case True
    with Cons show ?thesis by (simp add: unwindCallback_def)
  next
    case nz: False
    show ?thesis
    proof (cases "current st = end_p st")
      case True
      with nz show ?thesis by (simp add: unwindCallback_def)
    next
      case False
      with Cons.prems have lt: "current st < end_p st" by simp
      let ?st = "st\<lparr>current := current st + 1\<rparr>"
      have le: "current ?st \<le> end_p ?st" using lt by simp
      have mem: "store_bytes (frames(current st := pc)) (Suc (current st))
                   (take (end_p st - Suc (current st)) (filter (\<lambda>pc. pc \<noteq> 0) outer)) =
                 store_bytes frames (current st)
                   (take (end_p st - current st) (pc # filter (\<lambda>pc. pc \<noteq> 0) outer))"
      proof
        fix i
        from lt obtain d where d: "end_p st - current st = Suc d"
          by (metis Suc_diff_Suc)
        then have d': "end_p st - Suc (current st) = d" by simp
        show "store_bytes (frames(current st := pc)) (Suc (current st))
                   (take (end_p st - Suc (current st)) (filter (\<lambda>pc. pc \<noteq> 0) outer)) i =
                 store_bytes frames (current st)
                   (take (end_p st - current st) (pc # filter (\<lambda>pc. pc \<noteq> 0) outer)) i"
          unfolding d d' by (auto simp: store_bytes_def nth_Cons' Suc_diff_le)
      qed
      have step: "Unwind_Backtrace (pc # outer) (st, frames) =
                  Unwind_Backtrace outer (?st, frames(current st := pc))"
        using nz False by (simp add: unwindCallback_def)
      have cur: "?st\<lparr>current := min (end_p ?st)
                     (current ?st + length (filter (\<lambda>pc. pc \<noteq> 0) outer))\<rparr> =
                 st\<lparr>current := min (end_p st)
                     (current st + length (filter (\<lambda>pc. pc \<noteq> 0) (pc # outer)))\<rparr>"
        using nz by simp
      have mem': "store_bytes (frames(current st := pc)) (current ?st)
                    (take (end_p ?st - current ?st) (filter (\<lambda>pc. pc \<noteq> 0) outer)) =
                  store_bytes frames (current st)
                    (take (end_p st - current st) (filter (\<lambda>pc. pc \<noteq> 0) (pc # outer)))"
        using mem nz by simp
      show ?thesis
        unfolding step Cons.IH [OF le] cur mem' ..
    qed
  qed
qed

lemma captureStackTrace_result:
  "captureStackTrace buffer maxFrames chain =
     (min maxFrames (length (filter (\<lambda>pc. pc \<noteq> 0) chain)),
      store_bytes buffer 0 (take maxFrames (filter (\<lambda>pc. pc \<noteq> 0) chain)))"
  by (simp add: captureStackTrace_def Unwind_Backtrace_result)

lemma map_store_bytes: "map (store_bytes m 0 bs) [0..<length bs] = bs"
  by (rule nth_equalityI) (simp_all add: store_bytes_def)

text \<open>
  C3. \<^verbatim>\<open>captureStackTrace\<close> returns the number of non-null instruction pointers
  of the chain, capped at \<open>maxFrames\<close>; the cells below that count hold those
  pointers in the order of the walk, innermost first; every cell from the count on,
  so every cell from \<open>maxFrames\<close> on, is as it was. With more than
  \<open>MAX_FRAMES\<close> frames on the chain the count is 128, also as the handler stores it.
\<close>

theorem unwinder_fills_prefix:
  "fst (captureStackTrace buffer maxFrames chain) =
     min maxFrames (length (filter (\<lambda>pc. pc \<noteq> 0) chain)) \<and>
   map (snd (captureStackTrace buffer maxFrames chain))
       [0..<fst (captureStackTrace buffer maxFrames chain)] =
     take maxFrames (filter (\<lambda>pc. pc \<noteq> 0) chain) \<and>
   (\<forall>i. fst (captureStackTrace buffer maxFrames chain) \<le> i \<longrightarrow>
        snd (captureStackTrace buffer maxFrames chain) i = buffer i) \<and>
   fst (captureStackTrace buffer maxFrames chain) \<le> maxFrames \<and>
   (MAX_FRAMES < length (filter (\<lambda>pc. pc \<noteq> 0) chain) \<longrightarrow>
      fst (captureStackTrace buffer MAX_FRAMES chain) = 128) \<and>
   (MAX_FRAMES < length (filter (\<lambda>pc. pc \<noteq> 0) (call_chain env)) \<and> isHandlingCrash s = 0 \<longrightarrow>
      stackFrameCount (signalHandler signal info env s) = 128)"
proof -
  let ?nz = "filter (\<lambda>pc. pc \<noteq> 0) chain"
  let ?n = "min maxFrames (length ?nz)"
  have r: "captureStackTrace buffer maxFrames chain = (?n, store_bytes buffer 0 (take maxFrames ?nz))"
    by (rule captureStackTrace_result)
  have len: "length (take maxFrames ?nz) = ?n" by simp
  have "map (store_bytes buffer 0 (take maxFrames ?nz)) [0..<?n] = take maxFrames ?nz"
    using map_store_bytes [of buffer "take maxFrames ?nz"] unfolding len .
  moreover have "\<forall>i. ?n \<le> i \<longrightarrow> store_bytes buffer 0 (take maxFrames ?nz) i = buffer i"
    by (auto simp: store_bytes_def)
  moreover have "MAX_FRAMES < length ?nz \<longrightarrow>
      fst (captureStackTrace buffer MAX_FRAMES chain) = 128"
    by (simp add: captureStackTrace_result MAX_FRAMES_def)
  moreover have "MAX_FRAMES < length (filter (\<lambda>pc. pc \<noteq> 0) (call_chain env)) \<and>
      isHandlingCrash s = 0 \<longrightarrow>
      stackFrameCount (signalHandler signal info env s) = 128"
    by (simp add: captureStackTrace_result handler_unfold MAX_FRAMES_def split: option.split)
  ultimately show ?thesis unfolding r by simp
qed

theorem unwinder_fills_prefix_witness:
  "MAX_FRAMES < length (filter (\<lambda>pc. pc \<noteq> 0) deep_chain) \<and>
   MAX_FRAMES < length (filter (\<lambda>pc. pc \<noteq> 0) (call_chain (demo_env\<lparr>call_chain := deep_chain\<rparr>))) \<and>
   isHandlingCrash demo_process = 0 \<and>
   fst (captureStackTrace (\<lambda>i. 0) MAX_FRAMES deep_chain) = 128 \<and>
   map (snd (captureStackTrace (\<lambda>i. 0) MAX_FRAMES deep_chain)) [0..<128] = replicate 128 0x4000 \<and>
   snd (captureStackTrace (\<lambda>i. 0) MAX_FRAMES deep_chain) 128 = 0 \<and>
   stackFrameCount (signalHandler SIGSEGV None (demo_env\<lparr>call_chain := deep_chain\<rparr>) demo_process) =
     128"
proof -
  have h1: "MAX_FRAMES < length (filter (\<lambda>pc. pc \<noteq> 0) deep_chain)"
    by (simp add: deep_chain_def MAX_FRAMES_def)
  have h2: "isHandlingCrash demo_process = 0"
    by (simp add: demo_defs)
  have h3: "take MAX_FRAMES (filter (\<lambda>pc. pc \<noteq> 0) deep_chain) = replicate 128 0x4000"
    by (simp add: deep_chain_def MAX_FRAMES_def)
  note t = unwinder_fills_prefix [of "\<lambda>i. 0" MAX_FRAMES deep_chain
      "demo_env\<lparr>call_chain := deep_chain\<rparr>" demo_process SIGSEGV None]
  from t h1 have a: "fst (captureStackTrace (\<lambda>i. 0) MAX_FRAMES deep_chain) = 128"
    by blast
  from t have b: "map (snd (captureStackTrace (\<lambda>i. 0) MAX_FRAMES deep_chain))
       [0..<fst (captureStackTrace (\<lambda>i. 0) MAX_FRAMES deep_chain)] =
     take MAX_FRAMES (filter (\<lambda>pc. pc \<noteq> 0) deep_chain)"
    by blast
  from t a have c: "snd (captureStackTrace (\<lambda>i. 0) MAX_FRAMES deep_chain) 128 = 0"
    by simp
  from t h1 h2 have d: "stackFrameCount
      (signalHandler SIGSEGV None (demo_env\<lparr>call_chain := deep_chain\<rparr>) demo_process) = 128"
    by simp
  from a b c d h1 h2 h3 show ?thesis by simp
qed

section \<open>The report serializer\<close>

lemma size_sub_le:
  assumes "b \<le> a" "a < 2 ^ 64"
  shows "size_sub a b = a - b"
proof -
  have "b mod 2 ^ 64 = b" using assms by simp
  moreover have "a + 2 ^ 64 - b = (a - b) + 2 ^ 64" using assms by simp
  moreover have "a - b < 2 ^ 64" using assms by (rule_tac less_imp_diff_less)
  then have "((a - b) + 2 ^ 64) mod 2 ^ 64 = a - b"
    by (metis mod_add_self2 mod_less)
  ultimately show ?thesis unfolding size_sub_def by (simp only:)
qed

lemma size_add_small: "a + b < 2 ^ 64 \<Longrightarrow> size_add a b = a + b"
  by (simp add: size_add_def)

lemma emit_fits:
  assumes "bufferSize < 2 ^ 64" "off + length t < bufferSize"
  shows "emit bufferSize t (m, off) = (store_bytes m off (t @ [NUL]), off + length t)"
proof -
  have s: "size_sub bufferSize off = bufferSize - off"
    using assms by (simp add: size_sub_le)
  have a: "size_add off (length t) = off + length t"
    using assms by (simp add: size_add_small)
  from assms show ?thesis
    by (simp add: emit_def snprintf_def s a)
qed

lemma map_upt_eq_iff: "map m [0..<length s] = s \<longleftrightarrow> (\<forall>j<length s. m j = s ! j)"
proof
  assume eq: "map m [0..<length s] = s"
  show "\<forall>j<length s. m j = s ! j"
  proof (intro allI impI)
    fix j assume j: "j < length s"
    then have "map m [0..<length s] ! j = m j" by simp
    with eq show "m j = s ! j" by simp
  qed
next
  assume "\<forall>j<length s. m j = s ! j"
  then show "map m [0..<length s] = s"
    by (intro nth_equalityI) simp_all
qed

lemma mem_holds_iff:
  "mem_holds m s \<longleftrightarrow> (\<forall>j<length s. m j = s ! j) \<and> m (length s) = NUL"
  by (simp add: mem_holds_def map_upt_eq_iff)

lemma mem_holds_store:
  "mem_holds m s \<Longrightarrow> mem_holds (store_bytes m (length s) (t @ [NUL])) (s @ t)"
  by (auto simp: mem_holds_iff store_bytes_def nth_append)

lemma store_bytes_beyond:
  "off + length bs \<le> j \<Longrightarrow> store_bytes m off bs j = m j"
  by (simp add: store_bytes_def)

lemma frames_prefix_Suc:
  "frames_prefix dladdr frames (Suc k) = frames_prefix dladdr frames k @ frame_piece dladdr frames k"
  by (simp add: frames_prefix_def)

lemma frames_prefix_mono:
  "i \<le> k \<Longrightarrow> length (frames_prefix dladdr frames i) \<le> length (frames_prefix dladdr frames k)"
  by (induction k) (auto simp: frames_prefix_Suc le_Suc_eq)

lemma emit_piece:
  assumes B: "bufferSize < 2 ^ 64"
    and h: "mem_holds m (frames_prefix dladdr frames i)"
    and fit: "length (frames_prefix dladdr frames (Suc i)) + 2 \<le> bufferSize"
  shows "emit bufferSize (frame_text i (frames i) (resolve dladdr (frames i)))
           (if i > 0 then emit bufferSize '','' (m, length (frames_prefix dladdr frames i))
            else (m, length (frames_prefix dladdr frames i))) =
         (store_bytes
            (if i > 0 then store_bytes m (length (frames_prefix dladdr frames i)) ('','' @ [NUL]) else m)
            (length (frames_prefix dladdr frames i) + (if i > 0 then 1 else 0))
            (frame_text i (frames i) (resolve dladdr (frames i)) @ [NUL]),
          length (frames_prefix dladdr frames (Suc i)))"
  using B fit by (auto simp: emit_fits frames_prefix_Suc frame_piece_def)

lemma emit_piece_holds:
  assumes h: "mem_holds m (frames_prefix dladdr frames i)"
  shows "mem_holds
           (store_bytes
              (if i > 0 then store_bytes m (length (frames_prefix dladdr frames i)) ('','' @ [NUL]) else m)
              (length (frames_prefix dladdr frames i) + (if i > 0 then 1 else 0))
              (frame_text i (frames i) (resolve dladdr (frames i)) @ [NUL]))
           (frames_prefix dladdr frames (Suc i))"
proof (cases "i > 0")
  case True
  from mem_holds_store [OF h, of "'',''"]
  have "mem_holds (store_bytes m (length (frames_prefix dladdr frames i)) ('','' @ [NUL]))
          (frames_prefix dladdr frames i @ '','')" .
  from mem_holds_store [OF this, of "frame_text i (frames i) (resolve dladdr (frames i))"] True
  show ?thesis by (simp add: frames_prefix_Suc frame_piece_def)
next
  case False
  from mem_holds_store [OF h, of "frame_text i (frames i) (resolve dladdr (frames i))"] False
  show ?thesis by (simp add: frames_prefix_Suc frame_piece_def)
qed

lemma emit_piece_beyond:
  assumes fit: "length (frames_prefix dladdr frames (Suc i)) + 2 \<le> bufferSize" and j: "bufferSize \<le> j"
  shows "store_bytes
            (if i > 0 then store_bytes m (length (frames_prefix dladdr frames i)) ('','' @ [NUL]) else m)
            (length (frames_prefix dladdr frames i) + (if i > 0 then 1 else 0))
            (frame_text i (frames i) (resolve dladdr (frames i)) @ [NUL]) j = m j"
  using fit j by (auto simp: store_bytes_def frames_prefix_Suc frame_piece_def)

lemma format_frames_invariant:
  assumes B: "bufferSize < 2 ^ 64" "256 \<le> bufferSize"
    and fit: "\<forall>i<frameCount.
                length (frames_prefix dladdr frames i) < bufferSize - 256 \<longrightarrow>
                length (frames_prefix dladdr frames (Suc i)) + 2 \<le> bufferSize"
  shows "i \<le> frameCount \<Longrightarrow> mem_holds m (frames_prefix dladdr frames i) \<Longrightarrow>
         length (frames_prefix dladdr frames i) + 2 \<le> bufferSize \<Longrightarrow>
         \<exists>k m'. i \<le> k \<and> k \<le> frameCount \<and>
           format_frames dladdr bufferSize frames frameCount i
             (m, length (frames_prefix dladdr frames i)) =
             (m', length (frames_prefix dladdr frames k)) \<and>
           mem_holds m' (frames_prefix dladdr frames k) \<and>
           length (frames_prefix dladdr frames k) + 2 \<le> bufferSize \<and>
           (k < frameCount \<longrightarrow> bufferSize - 256 \<le> length (frames_prefix dladdr frames k)) \<and>
           (\<forall>j\<ge>bufferSize. m' j = m j)"
proof (induction "frameCount - i" arbitrary: i m)
  case 0
  then have "i = frameCount" by simp
  with 0 show ?case
    by (subst format_frames.simps) auto
next
  case (Suc d)
  then have lt: "i < frameCount" by simp
  have lim: "size_sub bufferSize 256 = bufferSize - 256"
    using B by (simp add: size_sub_le)
  show ?case
  proof (cases "length (frames_prefix dladdr frames i) < bufferSize - 256")
    case False
    then have "format_frames dladdr bufferSize frames frameCount i
             (m, length (frames_prefix dladdr frames i)) = (m, length (frames_prefix dladdr frames i))"
      by (subst format_frames.simps) (simp add: lim)
    with False Suc.prems lt show ?thesis
      by (intro exI [of _ i] exI [of _ m]) simp
  next
    case True
    with fit lt have room: "length (frames_prefix dladdr frames (Suc i)) + 2 \<le> bufferSize"
      by blast
    let ?m = "store_bytes
            (if i > 0 then store_bytes m (length (frames_prefix dladdr frames i)) ('','' @ [NUL]) else m)
            (length (frames_prefix dladdr frames i) + (if i > 0 then 1 else 0))
            (frame_text i (frames i) (resolve dladdr (frames i)) @ [NUL])"
    have step: "format_frames dladdr bufferSize frames frameCount i
             (m, length (frames_prefix dladdr frames i)) =
           format_frames dladdr bufferSize frames frameCount (Suc i)
             (?m, length (frames_prefix dladdr frames (Suc i)))"
      using True lt emit_piece [OF B(1) Suc.prems(2) room]
      by (subst format_frames.simps) (simp add: lim)
    have h: "mem_holds ?m (frames_prefix dladdr frames (Suc i))"
      using Suc.prems(2) by (rule emit_piece_holds)
    have d: "d = frameCount - Suc i" using Suc.hyps(2) by simp
    from Suc.hyps(1) [OF d _ h room] lt
    obtain k m' where k: "Suc i \<le> k" "k \<le> frameCount"
      "format_frames dladdr bufferSize frames frameCount (Suc i)
         (?m, length (frames_prefix dladdr frames (Suc i))) =
         (m', length (frames_prefix dladdr frames k))"
      "mem_holds m' (frames_prefix dladdr frames k)"
      "length (frames_prefix dladdr frames k) + 2 \<le> bufferSize"
      "k < frameCount \<longrightarrow> bufferSize - 256 \<le> length (frames_prefix dladdr frames k)"
      "\<forall>j\<ge>bufferSize. m' j = ?m j"
      by (metis Suc_leI)
    have "\<forall>j\<ge>bufferSize. m' j = m j"
    proof (intro allI impI)
      fix j assume j: "bufferSize \<le> j"
      with k(7) have "m' j = ?m j" by blast
      also have "\<dots> = m j" using room j by (rule emit_piece_beyond)
      finally show "m' j = m j" .
    qed
    with k step show ?thesis
      by (intro exI [of _ k] exI [of _ m']) simp
  qed
qed

lemma formatStackTraceJson_within_margin:
  assumes B: "bufferSize < 2 ^ 64" "256 \<le> bufferSize"
    and fit: "\<forall>i<frameCount.
                length (frames_prefix dladdr frames i) < bufferSize - 256 \<longrightarrow>
                length (frames_prefix dladdr frames (Suc i)) + 2 \<le> bufferSize"
  shows "\<exists>k\<le>frameCount.
           snd (formatStackTraceJson dladdr buffer bufferSize frames frameCount) =
             length (frames_json dladdr frames k) \<and>
           mem_holds (fst (formatStackTraceJson dladdr buffer bufferSize frames frameCount))
             (frames_json dladdr frames k) \<and>
           length (frames_json dladdr frames k) < bufferSize \<and>
           (k < frameCount \<longrightarrow> bufferSize - 256 \<le> length (frames_prefix dladdr frames k)) \<and>
           (\<forall>j\<ge>bufferSize.
              fst (formatStackTraceJson dladdr buffer bufferSize frames frameCount) j = buffer j)"
proof -
  let ?m0 = "store_bytes buffer 0 (''['' @ [NUL])"
  have p0: "frames_prefix dladdr frames 0 = ''[''"
    by (simp add: frames_prefix_def)
  have e0: "emit bufferSize ''['' (buffer, 0) = (?m0, length (frames_prefix dladdr frames 0))"
    using B by (simp add: emit_fits p0)
  have h0: "mem_holds ?m0 (frames_prefix dladdr frames 0)"
    by (simp add: p0 mem_holds_iff store_bytes_def)
  have r0: "length (frames_prefix dladdr frames 0) + 2 \<le> bufferSize"
    using B by (simp add: p0)
  have z: "0 \<le> frameCount" by simp
  from format_frames_invariant [OF B fit z h0 r0]
  obtain k m' where k: "k \<le> frameCount"
      "format_frames dladdr bufferSize frames frameCount 0
         (?m0, length (frames_prefix dladdr frames 0)) =
         (m', length (frames_prefix dladdr frames k))"
      "mem_holds m' (frames_prefix dladdr frames k)"
      "length (frames_prefix dladdr frames k) + 2 \<le> bufferSize"
      "k < frameCount \<longrightarrow> bufferSize - 256 \<le> length (frames_prefix dladdr frames k)"
      "\<forall>j\<ge>bufferSize. m' j = ?m0 j"
    by auto
  let ?m1 = "store_bytes m' (length (frames_prefix dladdr frames k)) ('']'' @ [NUL])"
  have e1: "emit bufferSize '']'' (m', length (frames_prefix dladdr frames k)) =
        (?m1, length (frames_json dladdr frames k))"
    using B k(4) by (simp add: emit_fits frames_json_def)
  have r: "formatStackTraceJson dladdr buffer bufferSize frames frameCount =
        (?m1, length (frames_json dladdr frames k))"
    by (simp only: formatStackTraceJson_def e0 k(2) e1)
  have h1: "mem_holds ?m1 (frames_json dladdr frames k)"
    unfolding frames_json_def using k(3) by (rule mem_holds_store)
  have b: "\<forall>j\<ge>bufferSize. ?m1 j = buffer j"
  proof (intro allI impI)
    fix j assume j: "bufferSize \<le> j"
    have "?m1 j = m' j" using k(4) j by (simp add: store_bytes_def)
    also have "\<dots> = ?m0 j" using k(6) j by blast
    also have "\<dots> = buffer j" using B j by (simp add: store_bytes_def)
    finally show "?m1 j = buffer j" .
  qed
  have l: "length (frames_json dladdr frames k) < bufferSize"
    using k(4) by (simp add: frames_json_def)
  from k(1) k(5) h1 b l show ?thesis
    unfolding r by (intro exI [of _ k]) simp
qed

lemma formatStackTraceJson_short_frames:
  assumes B: "bufferSize < 2 ^ 64" "256 \<le> bufferSize"
    and short: "\<forall>i<frameCount. length (frame_piece dladdr frames i) \<le> 255"
  shows "\<exists>k\<le>frameCount.
           snd (formatStackTraceJson dladdr buffer bufferSize frames frameCount) =
             length (frames_json dladdr frames k) \<and>
           mem_holds (fst (formatStackTraceJson dladdr buffer bufferSize frames frameCount))
             (frames_json dladdr frames k) \<and>
           length (frames_json dladdr frames k) < bufferSize \<and>
           (k < frameCount \<longrightarrow> bufferSize - 256 \<le> length (frames_prefix dladdr frames k)) \<and>
           (\<forall>j\<ge>bufferSize.
              fst (formatStackTraceJson dladdr buffer bufferSize frames frameCount) j = buffer j)"
proof (rule formatStackTraceJson_within_margin [OF B])
  show "\<forall>i<frameCount.
          length (frames_prefix dladdr frames i) < bufferSize - 256 \<longrightarrow>
          length (frames_prefix dladdr frames (Suc i)) + 2 \<le> bufferSize"
  proof (intro allI impI)
    fix i assume "i < frameCount" "length (frames_prefix dladdr frames i) < bufferSize - 256"
    with short have "length (frame_piece dladdr frames i) \<le> 255" by blast
    with \<open>length (frames_prefix dladdr frames i) < bufferSize - 256\<close>
    show "length (frames_prefix dladdr frames (Suc i)) + 2 \<le> bufferSize"
      by (simp add: frames_prefix_Suc)
  qed
qed

lemma formatStackTraceJson_all_frames:
  assumes B: "bufferSize < 2 ^ 64" "256 \<le> bufferSize"
    and total: "length (frames_prefix dladdr frames frameCount) < bufferSize - 256"
  shows "snd (formatStackTraceJson dladdr buffer bufferSize frames frameCount) =
           length (frames_json dladdr frames frameCount) \<and>
         mem_holds (fst (formatStackTraceJson dladdr buffer bufferSize frames frameCount))
           (frames_json dladdr frames frameCount) \<and>
         (\<forall>j\<ge>bufferSize.
              fst (formatStackTraceJson dladdr buffer bufferSize frames frameCount) j = buffer j)"
proof -
  have fit: "\<forall>i<frameCount.
          length (frames_prefix dladdr frames i) < bufferSize - 256 \<longrightarrow>
          length (frames_prefix dladdr frames (Suc i)) + 2 \<le> bufferSize"
  proof (intro allI impI)
    fix i assume "i < frameCount"
    then have "length (frames_prefix dladdr frames (Suc i)) \<le>
               length (frames_prefix dladdr frames frameCount)"
      by (intro frames_prefix_mono) simp
    with total show "length (frames_prefix dladdr frames (Suc i)) + 2 \<le> bufferSize"
      by simp
  qed
  from formatStackTraceJson_within_margin [OF B fit, of buffer]
  obtain k where k: "k \<le> frameCount"
      "snd (formatStackTraceJson dladdr buffer bufferSize frames frameCount) =
             length (frames_json dladdr frames k)"
      "mem_holds (fst (formatStackTraceJson dladdr buffer bufferSize frames frameCount))
             (frames_json dladdr frames k)"
      "k < frameCount \<longrightarrow> bufferSize - 256 \<le> length (frames_prefix dladdr frames k)"
      "\<forall>j\<ge>bufferSize.
              fst (formatStackTraceJson dladdr buffer bufferSize frames frameCount) j = buffer j"
    by blast
  have "k = frameCount"
  proof (rule ccontr)
    assume "k \<noteq> frameCount"
    with k(1) have lt: "k < frameCount" by simp
    with k(4) have "bufferSize - 256 \<le> length (frames_prefix dladdr frames k)" by blast
    moreover have "length (frames_prefix dladdr frames k) \<le>
                   length (frames_prefix dladdr frames frameCount)"
      using k(1) by (rule frames_prefix_mono)
    ultimately show False using total by simp
  qed
  with k show ?thesis by simp
qed

lemma c_str_reads:
  "(\<forall>j<length s. m (i + j) = s ! j) \<Longrightarrow> m (i + length s) = NUL \<Longrightarrow> NUL \<notin> set s \<Longrightarrow>
   length s < n \<Longrightarrow> c_str n m i = s"
proof (induction s arbitrary: n i)
  case Nil
  then obtain n' where "n = Suc n'" by (cases n) auto
  with Nil show ?case by simp
next
  case (Cons c s)
  then obtain n' where n: "n = Suc n'" by (cases n) auto
  from Cons.prems(1) have c: "m i = c" by force
  have rest: "\<forall>j<length s. m (Suc i + j) = s ! j"
  proof (intro allI impI)
    fix j assume "j < length s"
    then have "Suc j < length (c # s)" by simp
    with Cons.prems(1) have "m (i + Suc j) = (c # s) ! Suc j" by blast
    then show "m (Suc i + j) = s ! j" by simp
  qed
  have "c_str n' m (Suc i) = s"
    using rest Cons.prems n by (intro Cons.IH) simp_all
  with c Cons.prems(3) n show ?case by auto
qed

lemma c_str_mem_holds:
  "mem_holds m s \<Longrightarrow> NUL \<notin> set s \<Longrightarrow> length s < n \<Longrightarrow> c_str n m 0 = s"
  by (rule c_str_reads) (simp_all add: mem_holds_iff)

lemma after_last_slash_no_slash: "CHR ''/'' \<notin> set (after_last_slash fname)"
proof (cases "CHR ''/'' \<in> set fname")
  case True
  have "CHR ''/'' \<notin> set (takeWhile (\<lambda>c. c \<noteq> CHR ''/'') (rev fname))"
    by (auto dest: set_takeWhileD)
  with True show ?thesis by (simp add: after_last_slash_def)
next
  case False
  then show ?thesis by (simp add: after_last_slash_def)
qed

lemma after_last_slash_suffix:
  "\<exists>dir. fname = dir @ after_last_slash fname \<and> (dir = [] \<or> last dir = CHR ''/'')"
proof (cases "CHR ''/'' \<in> set fname")
  case True
  let ?P = "\<lambda>c. c \<noteq> CHR ''/''"
  have split: "rev fname = takeWhile ?P (rev fname) @ dropWhile ?P (rev fname)"
    by simp
  from True have ne: "dropWhile ?P (rev fname) \<noteq> []"
    by (simp add: dropWhile_eq_Nil_conv)
  then have hd: "hd (dropWhile ?P (rev fname)) = CHR ''/''"
    using hd_dropWhile [of ?P "rev fname"] by simp
  have "fname = rev (takeWhile ?P (rev fname) @ dropWhile ?P (rev fname))"
    by simp
  then have "fname = rev (dropWhile ?P (rev fname)) @ rev (takeWhile ?P (rev fname))"
    by (simp only: rev_append)
  moreover have "last (rev (dropWhile ?P (rev fname))) = CHR ''/''"
    using ne hd by (simp add: last_rev)
  ultimately show ?thesis
    using True by (intro exI [of _ "rev (dropWhile ?P (rev fname))"]) (simp add: after_last_slash_def)
next
  case False
  then show ?thesis by (intro exI [of _ "[]"]) (simp add: after_last_slash_def)
qed

lemmas fmt_defs = fmt_d_def fmt_td_def fmt_p_def fmt_lu.simps fmt_x.simps digit_char_def quoted_def

lemma demo_frames_json:
  "frames_json demo_dladdr demo_frames 3 =
   ''[{'' @ quoted ''frame'' @ '':0,'' @ quoted ''address'' @ '':'' @ quoted ''0x1010'' @ '','' @
   quoted ''module'' @ '':'' @ quoted ''libgame.so'' @ '','' @
   quoted ''symbol'' @ '':'' @ quoted ''crash_here'' @ '','' @
   quoted ''offset'' @ '':'' @ quoted ''16'' @ ''},'' @
   ''{'' @ quoted ''frame'' @ '':1,'' @ quoted ''address'' @ '':'' @ quoted ''0x2020'' @ '','' @
   quoted ''module'' @ '':'' @ quoted ''???'' @ '','' @
   quoted ''symbol'' @ '':'' @ quoted ''???'' @ '','' @
   quoted ''offset'' @ '':'' @ quoted ''0'' @ ''},'' @
   ''{'' @ quoted ''frame'' @ '':2,'' @ quoted ''address'' @ '':'' @ quoted ''0x3030'' @ '','' @
   quoted ''module'' @ '':'' @ quoted ''libc.so'' @ '','' @
   quoted ''symbol'' @ '':'' @ quoted ''???'' @ '','' @
   quoted ''offset'' @ '':'' @ quoted ''0'' @ ''}]''"
  by (simp add: numeral_3_eq_3 frames_json_def frames_prefix_Suc frames_prefix_def [of _ _ 0]
      frame_piece_def demo_frames_def store_bytes_def frame_text_def resolve_def demo_dladdr_def
      after_last_slash_def fmt_defs)

lemma demo_prefix_length: "length (frames_prefix demo_dladdr demo_frames 3) = 241"
proof -
  have "length (frames_json demo_dladdr demo_frames 3) = 242"
    unfolding demo_frames_json by (simp add: quoted_def)
  then show ?thesis by (simp add: frames_json_def)
qed

lemma long_text_shape:
  "long_text =
     (''{'' @ quoted ''frame'' @ '':0,'' @ quoted ''address'' @ '':'' @ quoted ''0x1010'' @ '','' @
      quoted ''module'' @ '':'' @ quoted ''libgame.so'' @ '','' @
      quoted ''symbol'' @ '':'' @ [DQ]) @
     replicate 16384 CHR ''a'' @
     ([DQ] @ '','' @ quoted ''offset'' @ '':'' @ quoted ''16'' @ ''}'')"
  by (simp add: long_text_def frame_text_def resolve_def long_dladdr_def after_last_slash_def
      fmt_defs)

lemma long_text_length: "length long_text = 16462"
  unfolding long_text_shape by (simp add: quoted_def)

lemma long_text_no_NUL: "NUL \<notin> set long_text"
  unfolding long_text_shape by (simp add: quoted_def NUL_def DQ_def)

lemma long_text_nth: "long_text ! 16381 = CHR ''a''"
  unfolding long_text_shape by (simp add: quoted_def nth_append)

lemma mem_holds_store_beyond:
  "mem_holds m s \<Longrightarrow> length s < off \<Longrightarrow> mem_holds (store_bytes m off bs) s"
  by (simp add: mem_holds_iff store_bytes_def)

lemma overflow_run_eq:
  "overflow_run =
     (store_bytes
        (store_bytes (store_bytes (\<lambda>i. CHR ''x'') 0 (''['' @ [NUL])) 1
           (take 16382 long_text @ [NUL]))
        16463 ('']'' @ [NUL]),
      16464)"
proof -
  let ?m0 = "store_bytes (\<lambda>i. CHR ''x'') 0 (''['' @ [NUL])"
  let ?m1 = "store_bytes ?m0 1 (take 16382 long_text @ [NUL])"
  let ?fr = "store_bytes (\<lambda>i. 0) 0 [0x1010 :: addr]"
  have e0: "emit 16384 ''['' (\<lambda>i. CHR ''x'', 0) = (?m0, 1)"
    by (simp add: emit_fits)
  have lim: "size_sub 16384 256 = 16128"
    by (simp add: size_sub_def)
  have e1: "emit 16384 long_text (?m0, 1) = (?m1, 16463)"
    by (simp add: emit_def snprintf_def size_sub_def size_add_def long_text_length)
  have cap: "captureStackTrace (\<lambda>i. 0) MAX_FRAMES [0x1010] = (1, ?fr)"
    by (simp add: captureStackTrace_result MAX_FRAMES_def)
  have l1: "format_frames long_dladdr 16384 ?fr 1 1 (?m1, 16463) = (?m1, 16463)"
    by (subst format_frames.simps) simp
  have s0: "format_frames long_dladdr 16384 ?fr 1 0 (?m0, 1) =
            format_frames long_dladdr 16384 ?fr 1 1 (emit 16384 long_text (?m0, 1))"
    by (subst format_frames.simps) (simp add: lim long_text_def store_bytes_def)
  have l0: "format_frames long_dladdr 16384 ?fr 1 0 (?m0, 1) = (?m1, 16463)"
    by (simp only: s0 e1 l1)
  have e2: "emit 16384 '']'' (?m1, 16463) = (store_bytes ?m1 16463 ('']'' @ [NUL]), 16464)"
    by (simp add: emit_def snprintf_def size_sub_def size_add_def)
  show ?thesis
    by (simp only: overflow_run_def cap Let_def fst_conv snd_conv formatStackTraceJson_def e0 l0 e2)
qed

text \<open>
  C7. A failed \<^verbatim>\<open>dladdr\<close> gives the sentinel for module and symbol and offset 0.
  A found symbol gives its name and the address minus the symbol's start; a missing
  one the sentinel and offset 0. A found file name gives what follows its last slash,
  which holds no slash and is the name's last component; a missing one the sentinel.
  Whenever the whole list stays below the size margin, the buffer ends up holding the
  document that lists every frame of the input, each rendered from its own lookup,
  whatever the lookups of the other frames gave.
\<close>

theorem resolver_sentinels_and_every_frame_listed:
  "(dladdr a = None \<longrightarrow> resolve dladdr a = (''???'', ''???'', 0)) \<and>
   (dladdr a = Some info \<and> dli_sname info = Some sname \<longrightarrow>
      fst (snd (resolve dladdr a)) = sname \<and>
      snd (snd (resolve dladdr a)) = a - dli_saddr info) \<and>
   (dladdr a = Some info \<and> dli_sname info = None \<longrightarrow>
      fst (snd (resolve dladdr a)) = ''???'' \<and> snd (snd (resolve dladdr a)) = 0) \<and>
   (dladdr a = Some info \<and> dli_fname info = Some fname \<longrightarrow>
      fst (resolve dladdr a) = after_last_slash fname \<and>
      CHR ''/'' \<notin> set (after_last_slash fname) \<and>
      (\<exists>dir. fname = dir @ after_last_slash fname \<and> (dir = [] \<or> last dir = CHR ''/''))) \<and>
   (dladdr a = Some info \<and> dli_fname info = None \<longrightarrow> fst (resolve dladdr a) = ''???'') \<and>
   (bufferSize < 2 ^ 64 \<and> 256 \<le> bufferSize \<and>
    length (frames_prefix dladdr frames frameCount) < bufferSize - 256 \<longrightarrow>
      snd (formatStackTraceJson dladdr buffer bufferSize frames frameCount) =
        length (frames_json dladdr frames frameCount) \<and>
      mem_holds (fst (formatStackTraceJson dladdr buffer bufferSize frames frameCount))
        (frames_json dladdr frames frameCount))"
proof (intro conjI impI)
  assume "dladdr a = None"
  then show "resolve dladdr a = (''???'', ''???'', 0)"
    by (simp add: resolve_def)
next
  assume s: "dladdr a = Some info \<and> dli_sname info = Some sname"
  then show "fst (snd (resolve dladdr a)) = sname"
    and "snd (snd (resolve dladdr a)) = a - dli_saddr info"
    by (simp_all add: resolve_def)
next
  assume "dladdr a = Some info \<and> dli_sname info = None"
  then show "fst (snd (resolve dladdr a)) = ''???''" and "snd (snd (resolve dladdr a)) = 0"
    by (simp_all add: resolve_def)
next
  assume "dladdr a = Some info \<and> dli_fname info = Some fname"
  then show "fst (resolve dladdr a) = after_last_slash fname"
    by (simp add: resolve_def split: option.split)
  show "CHR ''/'' \<notin> set (after_last_slash fname)"
    by (rule after_last_slash_no_slash)
  show "\<exists>dir. fname = dir @ after_last_slash fname \<and> (dir = [] \<or> last dir = CHR ''/'')"
    by (rule after_last_slash_suffix)
next
  assume "dladdr a = Some info \<and> dli_fname info = None"
  then show "fst (resolve dladdr a) = ''???''"
    by (simp add: resolve_def split: option.split)
next
  assume h: "bufferSize < 2 ^ 64 \<and> 256 \<le> bufferSize \<and>
    length (frames_prefix dladdr frames frameCount) < bufferSize - 256"
  from h formatStackTraceJson_all_frames [of bufferSize dladdr frames frameCount buffer]
  show "snd (formatStackTraceJson dladdr buffer bufferSize frames frameCount) =
        length (frames_json dladdr frames frameCount)"
    and "mem_holds (fst (formatStackTraceJson dladdr buffer bufferSize frames frameCount))
        (frames_json dladdr frames frameCount)"
    by simp_all
qed

theorem resolver_sentinels_and_every_frame_listed_witness:
  "demo_dladdr 0x2020 = None \<and>
   resolve demo_dladdr 0x2020 = (''???'', ''???'', 0) \<and>
   dli_sname (the (demo_dladdr 0x1010)) = Some ''crash_here'' \<and>
   dli_fname (the (demo_dladdr 0x1010)) = Some ''/data/app/lib/arm64/libgame.so'' \<and>
   resolve demo_dladdr 0x1010 = (''libgame.so'', ''crash_here'', 0x10) \<and>
   dli_sname (the (demo_dladdr 0x3030)) = None \<and>
   fst (snd (resolve demo_dladdr 0x3030)) = ''???'' \<and>
   snd (snd (resolve demo_dladdr 0x3030)) = 0 \<and>
   dli_fname (the (demo_dladdr 0x4040)) = None \<and>
   fst (resolve demo_dladdr 0x4040) = ''???'' \<and>
   length (frames_prefix demo_dladdr demo_frames 3) < 16384 - 256 \<and>
   snd (formatStackTraceJson demo_dladdr (\<lambda>i. CHR ''x'') 16384 demo_frames 3) = 242 \<and>
   mem_holds (fst (formatStackTraceJson demo_dladdr (\<lambda>i. CHR ''x'') 16384 demo_frames 3))
     (frames_json demo_dladdr demo_frames 3)"
proof -
  let ?i1 = "\<lparr>dli_fname = Some ''/data/app/lib/arm64/libgame.so'', dli_fbase = 0x1000,
              dli_sname = Some ''crash_here'', dli_saddr = 0x1000\<rparr>"
  let ?i3 = "\<lparr>dli_fname = Some ''libc.so'', dli_fbase = 0x3000,
              dli_sname = None, dli_saddr = 0\<rparr>"
  let ?i4 = "\<lparr>dli_fname = None, dli_fbase = 0,
              dli_sname = Some ''anon_fn'', dli_saddr = 0x4000\<rparr>"
  have d: "demo_dladdr 0x2020 = None" "demo_dladdr 0x1010 = Some ?i1"
      "demo_dladdr 0x3030 = Some ?i3" "demo_dladdr 0x4040 = Some ?i4"
    by (simp_all add: demo_dladdr_def)
  have b: "(16384::nat) < 2 ^ 64" "(256::nat) \<le> 16384"
      "length (frames_prefix demo_dladdr demo_frames 3) < 16384 - 256"
    by (simp_all add: demo_prefix_length)
  have base: "after_last_slash ''/data/app/lib/arm64/libgame.so'' = ''libgame.so''"
    by (simp add: after_last_slash_def)
  have l: "length (frames_json demo_dladdr demo_frames 3) = 242"
    using demo_prefix_length by (simp add: frames_json_def)
  note t = resolver_sentinels_and_every_frame_listed
  from t [where dladdr = demo_dladdr and a = "0x2020"] d(1)
  have r2: "resolve demo_dladdr 0x2020 = (''???'', ''???'', 0)"
    by blast
  from t [where dladdr = demo_dladdr and a = "0x1010" and info = ?i1 and sname = "''crash_here''"
            and fname = "''/data/app/lib/arm64/libgame.so''"] d(2)
  have r1: "fst (snd (resolve demo_dladdr 0x1010)) = ''crash_here''"
      "snd (snd (resolve demo_dladdr 0x1010)) = 0x1010 - 0x1000"
      "fst (resolve demo_dladdr 0x1010) = after_last_slash ''/data/app/lib/arm64/libgame.so''"
    by simp_all
  from t [where dladdr = demo_dladdr and a = "0x3030" and info = ?i3] d(3)
  have r3: "fst (snd (resolve demo_dladdr 0x3030)) = ''???''"
      "snd (snd (resolve demo_dladdr 0x3030)) = 0"
    by simp_all
  from t [where dladdr = demo_dladdr and a = "0x4040" and info = ?i4] d(4)
  have r4: "fst (resolve demo_dladdr 0x4040) = ''???''"
    by simp
  from t [where dladdr = demo_dladdr and bufferSize = 16384 and frames = demo_frames
            and frameCount = 3 and buffer = "\<lambda>i. CHR ''x''"] b
  have r5: "snd (formatStackTraceJson demo_dladdr (\<lambda>i. CHR ''x'') 16384 demo_frames 3) =
        length (frames_json demo_dladdr demo_frames 3)"
      "mem_holds (fst (formatStackTraceJson demo_dladdr (\<lambda>i. CHR ''x'') 16384 demo_frames 3))
        (frames_json demo_dladdr demo_frames 3)"
    by blast+
  have r1': "resolve demo_dladdr 0x1010 = (''libgame.so'', ''crash_here'', 0x10)"
    using r1 base by (simp add: prod_eq_iff)
  from d r2 r1' r3 r4 r5 b l show ?thesis by simp
qed

text \<open>
  C2 does not hold of the code. On a call chain of one frame whose symbol name has 16384
  characters, with the handler's buffer of 16384 bytes, the frame object is cut at the
  end of the buffer, the closing bracket and its NUL are written to the cells 16463 and
  16464, past the end of the array, and the string the buffer holds ends inside the
  symbol name, with the bracket and the brace still open.
\<close>

theorem serializer_writes_past_buffer_on_long_symbol:
  "snd overflow_run = 16464 \<and>
   fst overflow_run 16463 = CHR '']'' \<and>
   fst overflow_run 16464 = NUL \<and>
   c_str 16384 (fst overflow_run) 0 = ''['' @ take 16382 long_text \<and>
   last (c_str 16384 (fst overflow_run) 0) = CHR ''a''"
proof -
  let ?m0 = "store_bytes (\<lambda>i. CHR ''x'') 0 (''['' @ [NUL])"
  let ?m1 = "store_bytes ?m0 1 (take 16382 long_text @ [NUL])"
  let ?m2 = "store_bytes ?m1 16463 ('']'' @ [NUL])"
  let ?s = "''['' @ take 16382 long_text"
  have len: "length ?s = 16383"
    by (simp add: long_text_length)
  have h0: "mem_holds ?m0 ''[''"
    by (simp add: mem_holds_iff store_bytes_def)
  have "mem_holds (store_bytes ?m0 (length ''['') (take 16382 long_text @ [NUL])) ?s"
    using h0 by (rule mem_holds_store)
  then have h1: "mem_holds ?m1 ?s" by simp
  have h2: "mem_holds ?m2 ?s"
    using h1 by (rule mem_holds_store_beyond) (simp add: len)
  have nn: "NUL \<notin> set ?s"
    using long_text_no_NUL set_take_subset [of 16382 long_text] by (auto simp: NUL_def)
  have c: "c_str 16384 ?m2 0 = ?s"
    using h2 nn by (rule c_str_mem_holds) (simp add: len)
  have "last ?s = ?s ! (length ?s - 1)"
    by (rule last_conv_nth) simp
  also have "\<dots> = ?s ! 16382"
    by (simp only: len) simp
  also have "\<dots> = take 16382 long_text ! 16381"
    by simp
  also have "\<dots> = long_text ! 16381"
    by simp
  finally have la: "last ?s = CHR ''a''"
    by (simp add: long_text_nth)
  have w: "?m2 16463 = CHR '']''" "?m2 16464 = NUL"
    by (simp_all add: store_bytes_def)
  from c la w show ?thesis
    unfolding overflow_run_eq by simp
qed

end
